theory Spec2Isabelle
  imports Main "HOL-Library.Word"
begin

section \<open>The server side of the packet relay (src/pcap/server.go)\<close>

text \<open>
  The Go file holds the \<open>Server\<close> struct, \<open>Open\<close>, \<open>Close\<close>, \<open>handshake\<close>,
  \<open>handleListen\<close>, \<open>handleUpstream\<close> and \<open>distPort\<close>. The three handlers and
  \<open>distPort\<close> are embedded below as functions on an explicit \<open>Server\<close> record: a
  handler takes the server state and returns the new state together with the list of
  things it did to the outside world (frames written to a capture handle, lines printed).

  The readers of \<open>Open\<close> run the handlers in several goroutines with no lock. The
  embedding is sequential: one call of a handler is one atomic step.
\<close>

subsection \<open>Machine integers, addresses, layer kinds\<close>

type_synonym u8 = "8 word"
type_synonym u16 = "16 word"
type_synonym u32 = "32 word"
type_synonym bytes = "u8 list"

text \<open>
  \<open>net.IP\<close> and \<open>net.HardwareAddr\<close> are byte slices; the nil slice is the empty list.
  A \<open>*pcap.Handle\<close> is an opaque capture endpoint, modelled by a number.
\<close>

type_synonym IP = "u8 list"
type_synonym HardwareAddr = "u8 list"
type_synonym handle = nat

text \<open>
  \<open>gopacket.LayerType\<close> is an integer. \<open>LayerTypeZero\<close> is the number 0, the value of a
  \<open>LayerType\<close> variable that was declared and never assigned; the layer kinds of package
  \<open>layers\<close> are registered under other numbers, so they differ from it and from each
  other. \<open>LayerTypeOther n\<close> stands for every kind the handlers do not name.
\<close>

datatype LayerType =
    LayerTypeZero
  | LayerTypeLoopback
  | LayerTypeEthernet
  | LayerTypeIPv4
  | LayerTypeIPv6
  | LayerTypeTCP
  | LayerTypeUDP
  | LayerTypeOther nat

text \<open>
  Errors as values: \<open>errors.New(msg)\<close>, \<open>fmt.Errorf("type %s not support", t)\<close> and
  the wrapping \<open>fmt.Errorf("<context>: %w", err)\<close>.
\<close>

datatype error =
    ErrorNew string
  | TypeNotSupport LayerType
  | Wrap string error

text \<open>\<open>IP.To4\<close> of the Go library: the 4-byte form of an IPv4 address, nil otherwise.\<close>

definition To4 :: "IP \<Rightarrow> IP" where
  "To4 ip =
     (if length ip = 4 then ip
      else if length ip = 16 \<and> take 10 ip = replicate 10 0 \<and> ip ! 10 = 255 \<and> ip ! 11 = 255
      then drop 12 ip
      else [])"

text \<open>The verb \<open>%d\<close> of \<open>fmt\<close> on an unsigned number.\<close>

function decimal :: "nat \<Rightarrow> string" where
  "decimal n =
     (if n < 10 then [''0123456789'' ! n]
      else decimal (n div 10) @ [''0123456789'' ! (n mod 10)])"
  by pat_completeness auto
termination
  by (relation "measure (\<lambda>n. n)") auto

declare decimal.simps [simp del]

text \<open>Reading a Go map yields the zero value for a key that is absent.\<close>

definition mapGet :: "('k \<rightharpoonup> 'v::zero) \<Rightarrow> 'k \<Rightarrow> 'v" where
  "mapGet m k = (case m k of None \<Rightarrow> 0 | Some v \<Rightarrow> v)"

subsection \<open>Layers and parsed packets\<close>

text \<open>
  The layer objects of \<open>gopacket/layers\<close>, with the fields the handlers read or write.
  A \<open>gopacket.TransportLayer\<close> holds a \<open>*layers.TCP\<close>, a \<open>*layers.UDP\<close> or a layer of
  another kind; likewise for the network layer.
\<close>

record tcp =
  tcp_SrcPort :: u16
  tcp_DstPort :: u16
  tcp_Seq :: u32
  tcp_Ack :: u32
  tcp_SYN :: bool
  tcp_ACK :: bool

record udp =
  udp_SrcPort :: u16
  udp_DstPort :: u16

datatype transportLayer = TCP tcp | UDP udp | OtherTransport nat

record ipv4 =
  ip4_SrcIP :: IP
  ip4_DstIP :: IP
  ip4_Id :: u16
  ip4_TTL :: u8

record ipv6 =
  ip6_SrcIP :: IP
  ip6_DstIP :: IP
  ip6_HopLimit :: u8

datatype networkLayer = IPv4 ipv4 | IPv6 ipv6 | OtherNetwork nat

record ethernet =
  eth_SrcMAC :: HardwareAddr
  eth_DstMAC :: HardwareAddr

datatype linkLayer = Loopback | Ethernet ethernet

text \<open>
  Modelled from the spec: the type \<open>packetIndicator\<close> is declared outside
  src/pcap/server.go. Spec, section 3: a parsed view of a captured frame carrying the
  network-layer kind with source and destination IP, IPv4 identification and TTL; the
  transport-layer kind with source and destination ports and, for TCP, sequence number
  and flags; the application-layer bytes if present; and a reference to the raw transport
  and network layer objects usable for in-place mutation. The fields are the ones
  server.go reads (\<open>Id'\<close> is the field \<open>Id\<close>), with the widths of the layer fields they
  copy: \<open>TTL\<close> is a \<open>uint8\<close>, the ports and the id are \<open>uint16\<close>, \<open>Seq\<close> is a
  \<open>uint32\<close>. The scalar fields are copies made when the packet was parsed: writing to a
  layer object does not change them.
  \<open>ApplicationLayer\<close> is \<open>None\<close> for nil, otherwise the \<open>LayerContents()\<close>.
\<close>

record packetIndicator =
  NetworkLayer :: networkLayer
  TransportLayer :: transportLayer
  ApplicationLayer :: "bytes option"
  SrcIP :: IP
  SrcPort :: u16
  DstIP :: IP
  DstPort :: u16
  Id' :: u16
  TTL :: u8
  Seq :: u32
  SYN :: bool

text \<open>
  Modelled from the spec: the field \<open>NetworkLayerType\<close> of the indicator (spec, section
  3: the network-layer kind). It is the kind of the layer object the indicator refers to,
  so that the type assertions of the source (\<open>NetworkLayer.(*layers.IPv4)\<close> under
  \<open>case layers.LayerTypeIPv4\<close>, and the like) always succeed.
\<close>

definition NetworkLayerType :: "packetIndicator \<Rightarrow> LayerType" where
  "NetworkLayerType i =
     (case NetworkLayer i of
        IPv4 l \<Rightarrow> LayerTypeIPv4
      | IPv6 l \<Rightarrow> LayerTypeIPv6
      | OtherNetwork n \<Rightarrow> LayerTypeOther n)"

text \<open>
  Modelled from the spec: the field \<open>TransportLayerType\<close> of the indicator (spec, section
  3: the transport-layer kind), the kind of the layer object the indicator refers to.
\<close>

definition TransportLayerType :: "packetIndicator \<Rightarrow> LayerType" where
  "TransportLayerType i =
     (case TransportLayer i of
        TCP l \<Rightarrow> LayerTypeTCP
      | UDP l \<Rightarrow> LayerTypeUDP
      | OtherTransport n \<Rightarrow> LayerTypeOther n)"

text \<open>
  Modelled from the spec: the method \<open>Payload()\<close> of the indicator is outside
  server.go; spec, section 3: the application-layer bytes if present.
\<close>

definition Payload :: "packetIndicator \<Rightarrow> bytes option" where
  "Payload i = ApplicationLayer i"

text \<open>
  Modelled from the spec: the type \<open>quintuple\<close> is declared outside server.go. Spec,
  section 3: the flow key \<open>(src_ip, src_port, dst_ip, dst_port, protocol)\<close>, where
  protocol is the transport-layer kind and the addresses are in string form. The field
  names are those of the composite literals of server.go.
\<close>

record quintuple =
  q_SrcIP :: string
  q_SrcPort :: u16
  q_DstIP :: string
  q_DstPort :: u16
  q_Protocol :: LayerType

text \<open>
  Modelled from the spec: the type \<open>encappedPacketSrc\<close> is declared outside server.go.
  Spec, section 3: the reverse entry \<open>(carrier_src_ip, carrier_src_port, inner_src_ip,
  inner_src_port, handle)\<close>. The field names are those of the composite literal of
  server.go.
\<close>

record encappedPacketSrc =
  ps_SrcIP :: string
  ps_SrcPort :: u16
  ps_EncappedSrcIP :: string
  ps_EncappedSrcPort :: u16
  ps_Handle :: handle

text \<open>
  Modelled from the spec: the type \<open>Device\<close> is declared outside server.go. Spec,
  section 3: a capture endpoint with a hardware address, bound IP addresses and a
  loopback flag. \<open>IPv4Addr\<close>, \<open>IPv6Addr\<close> and \<open>IPAddr\<close> are the \<open>.IP\<close> of what the
  accessors of the same names return, nil (the empty list) when the device has no such
  address: server.go tests the result against nil.
\<close>

record Device =
  IsLoop :: bool
  HardwareAddr :: HardwareAddr
  IPv4Addr :: IP
  IPv6Addr :: IP
  IPAddr :: IP

text \<open>
  The \<open>Server\<close> struct. \<open>id'\<close> and \<open>nat'\<close> are the fields \<open>id\<close> and \<open>nat\<close>. The
  fields \<open>ListenDevs\<close> and \<open>listenHandles\<close> are used by \<open>Open\<close> and \<open>Close\<close> only and
  are left out; the listen handle a packet came from is an argument of \<open>handleListen\<close>.
\<close>

record Server =
  ListenPort :: u16
  UpDev :: Device
  GatewayDev :: Device
  upHandle :: handle
  seqs :: "string \<rightharpoonup> u32"
  acks :: "string \<rightharpoonup> u32"
  id' :: u16
  port :: u16
  portDist :: "quintuple \<rightharpoonup> u16"
  nat' :: "quintuple \<rightharpoonup> encappedPacketSrc"

text \<open>
  A captured \<open>gopacket.Packet\<close>: its bytes and the \<open>Metadata().Length\<close>. A serialized
  frame is represented by the layers and payload \<open>serialize\<close> was given.
\<close>

record packet =
  pkt_Data :: bytes
  pkt_Length :: nat

record frame =
  f_link :: linkLayer
  f_network :: networkLayer
  f_transport :: transportLayer
  f_payload :: "bytes option"

text \<open>
  What a handler does to the outside world, in order: \<open>Println e\<close> is
  \<open>fmt.Println(e)\<close> of an error, the three \<open>Print...\<close> events are the \<open>fmt.Printf\<close>
  lines "Connect from client", "Redirect an inbound" and "Redirect an outbound", and
  \<open>Wrote h f\<close> is a call \<open>h.WritePacketData\<close> of the frame \<open>f\<close> that returned no error.
\<close>

datatype event =
    Println error
  | PrintConnect IP u16
  | PrintInbound LayerType string string nat
  | PrintOutbound LayerType string string nat
  | Wrote handle frame

subsection \<open>Functions outside server.go\<close>

text \<open>
  The decoders, the fallible layer builders, the serializer and the capture driver are
  not in server.go; \<open>IP.String\<close> and \<open>net.ParseIP\<close> are the Go library's. The handlers
  take them as parameters, in one record. \<open>serialize\<close> and \<open>WritePacketData\<close> give the
  error or \<open>None\<close> for nil. \<open>Contents\<close> is the method \<open>Contents()\<close> of the indicator:
  the bytes of its network layer, transport layer and payload as they are when it is
  called.
\<close>

record env =
  parsePacket :: "packet \<Rightarrow> error + packetIndicator"
  parseEncappedPacket :: "bytes \<Rightarrow> error + packetIndicator"
  IPString :: "IP \<Rightarrow> string"
  ParseIP :: "string \<Rightarrow> IP"
  createNetworkLayerIPv4 :: "IP \<Rightarrow> IP \<Rightarrow> u16 \<Rightarrow> u8 \<Rightarrow> transportLayer \<Rightarrow> error + networkLayer"
  createNetworkLayerIPv6 :: "IP \<Rightarrow> IP \<Rightarrow> transportLayer \<Rightarrow> error + networkLayer"
  createLinkLayerEthernet :: "HardwareAddr \<Rightarrow> HardwareAddr \<Rightarrow> networkLayer \<Rightarrow> error + linkLayer"
  serialize :: "linkLayer \<Rightarrow> networkLayer \<Rightarrow> transportLayer \<Rightarrow> bytes option \<Rightarrow> error option"
  WritePacketData :: "handle \<Rightarrow> frame \<Rightarrow> error option"
  Contents :: "packetIndicator \<Rightarrow> bytes"

text \<open>
  Modelled from the spec: the method \<open>SrcAddr()\<close> of the indicator is outside server.go;
  spec, section 3: the string "ip:port".
\<close>

definition SrcAddr :: "env \<Rightarrow> packetIndicator \<Rightarrow> string" where
  "SrcAddr env i = IPString env (SrcIP i) @ '':'' @ decimal (unat (SrcPort i))"

text \<open>
  Modelled from the spec: the method \<open>DstAddr()\<close> of the indicator is outside server.go;
  the same string for the destination.
\<close>

definition DstAddr :: "env \<Rightarrow> packetIndicator \<Rightarrow> string" where
  "DstAddr env i = IPString env (DstIP i) @ '':'' @ decimal (unat (DstPort i))"

text \<open>
  Modelled from the spec: \<open>createTCPLayerSYNACK\<close> is outside server.go. Spec, section
  4.1: \<open>build_tcp_synack(src_port, dst_port, seq, ack)\<close> constructs a TCP header with SYN
  and ACK flags set.
\<close>

definition createTCPLayerSYNACK :: "u16 \<Rightarrow> u16 \<Rightarrow> u32 \<Rightarrow> u32 \<Rightarrow> transportLayer" where
  "createTCPLayerSYNACK srcPort dstPort seq ack =
     TCP \<lparr>tcp_SrcPort = srcPort, tcp_DstPort = dstPort, tcp_Seq = seq, tcp_Ack = ack,
          tcp_SYN = True, tcp_ACK = True\<rparr>"

text \<open>
  Modelled from the spec: \<open>createTransportLayerTCP\<close> is outside server.go. Spec, section
  4.1: \<open>build_tcp_data(src_port, dst_port, seq, ack)\<close> constructs a pure data/ACK TCP
  header (no SYN, ACK set).
\<close>

definition createTransportLayerTCP :: "u16 \<Rightarrow> u16 \<Rightarrow> u32 \<Rightarrow> u32 \<Rightarrow> transportLayer" where
  "createTransportLayerTCP srcPort dstPort seq ack =
     TCP \<lparr>tcp_SrcPort = srcPort, tcp_DstPort = dstPort, tcp_Seq = seq, tcp_Ack = ack,
          tcp_SYN = False, tcp_ACK = True\<rparr>"

text \<open>
  Modelled from the spec: \<open>createLinkLayerLoopback\<close> is outside server.go. Spec, section
  4.1: \<open>build_loopback()\<close> is the family word only.
\<close>

definition createLinkLayerLoopback :: linkLayer where
  "createLinkLayerLoopback = Loopback"

subsection \<open>Open: the initial state\<close>

text \<open>
  Lines 31 to 35 of \<open>Open\<close>: the tables are made empty and the IPv4 id is set to 0. The
  port cursor is not assigned; it is 0 in a \<open>Server\<close> value that was never used. The rest
  of \<open>Open\<close> checks the devices, opens the capture handles and starts the readers.
\<close>

definition Open :: "Server \<Rightarrow> Server" where
  "Open p = p\<lparr>seqs := Map.empty, acks := Map.empty, id' := 0,
              portDist := Map.empty, nat' := Map.empty\<rparr>"

subsection \<open>distPort and the link-layer switch\<close>

text \<open>\<open>distPort\<close>, lines 527 to 529, on \<open>uint16\<close>.\<close>

definition distPort :: "Server \<Rightarrow> u16" where
  "distPort p = 49152 + port p mod 16384"

text \<open>
  The block "Distribute port" of \<open>handleListen\<close>, lines 284 to 288: the value of the
  local variable \<open>distPort\<close> and the server after the block.
\<close>

definition distribute :: "Server \<Rightarrow> quintuple \<Rightarrow> u16 \<times> Server" where
  "distribute p qPortDist =
     (case portDist p qPortDist of
        Some d \<Rightarrow> (d, p)
      | None \<Rightarrow> (distPort p, p\<lparr>port := port p + 1\<rparr>))"

text \<open>
  The block "Modify transport layer" of \<open>handleListen\<close>, lines 291 to 303, and the block
  "NAT back encapped transport layer" of \<open>handleUpstream\<close>, lines 415 to 427: the source
  port of the layer object is overwritten; a layer of another kind is an error, whose
  context string differs between the two handlers.
\<close>

definition setSrcPort :: "string \<Rightarrow> transportLayer \<Rightarrow> u16 \<Rightarrow> error + transportLayer" where
  "setSrcPort ctxt l srcPort =
     (case l of
        TCP tcpLayer \<Rightarrow> Inr (TCP (tcpLayer\<lparr>tcp_SrcPort := srcPort\<rparr>))
      | UDP udpLayer \<Rightarrow> Inr (UDP (udpLayer\<lparr>udp_SrcPort := srcPort\<rparr>))
      | OtherTransport n \<Rightarrow> Inl (Wrap ctxt (TypeNotSupport (LayerTypeOther n))))"

text \<open>
  The switch "Create new network layer", which stands three times in the source: lines
  173 to 186 (\<open>handshake\<close>), 307 to 323 (\<open>handleListen\<close>) and 465 to 480
  (\<open>handleUpstream\<close>). The IPv4 builder is given the source \<open>src4\<close>, the id and the TTL,
  the IPv6 builder the source \<open>src6\<close>; another kind is an error. The result is the layer,
  or the error before the caller adds its own context.
\<close>

definition createNetworkLayer ::
  "env \<Rightarrow> LayerType \<Rightarrow> IP \<Rightarrow> IP \<Rightarrow> IP \<Rightarrow> u16 \<Rightarrow> u8 \<Rightarrow> transportLayer \<Rightarrow> error + networkLayer" where
  "createNetworkLayer env newNetworkLayerType src4 src6 dst ident ttl transportLayer =
     (case newNetworkLayerType of
        LayerTypeIPv4 \<Rightarrow> createNetworkLayerIPv4 env src4 dst ident ttl transportLayer
      | LayerTypeIPv6 \<Rightarrow> createNetworkLayerIPv6 env src6 dst transportLayer
      | ty \<Rightarrow> Inl (Wrap ''create network layer'' (TypeNotSupport ty)))"

text \<open>
  The switch "Create new link layer", which stands three times in the source with the
  same text: lines 196 to 207 (\<open>handshake\<close>), 333 to 347 (\<open>handleListen\<close>) and 483 to 496
  (\<open>handleUpstream\<close>). The result is the layer, or the error before the caller adds its
  own context.
\<close>

definition createLinkLayer :: "env \<Rightarrow> Server \<Rightarrow> LayerType \<Rightarrow> networkLayer \<Rightarrow> error + linkLayer" where
  "createLinkLayer env p newLinkLayerType newNetworkLayer =
     (case newLinkLayerType of
        LayerTypeLoopback \<Rightarrow> Inr createLinkLayerLoopback
      | LayerTypeEthernet \<Rightarrow>
          createLinkLayerEthernet env (HardwareAddr (UpDev p)) (HardwareAddr (GatewayDev p))
            newNetworkLayer
      | ty \<Rightarrow> Inl (Wrap ''create link layer'' (TypeNotSupport ty)))"

text \<open>
  The three composite literals of type \<open>quintuple\<close>: \<open>qPortDist\<close> (lines 277 to 283) and
  \<open>qNAT\<close> (lines 350 to 356) of \<open>handleListen\<close>, and \<open>q\<close> (lines 402 to 408) of
  \<open>handleUpstream\<close>, here \<open>qUpstream\<close>. \<open>SrcPort encappedIndicator\<close> in \<open>qNAT\<close> is
  the field of the indicator, the source port the inner packet arrived with.
\<close>

definition qPortDist :: "env \<Rightarrow> packetIndicator \<Rightarrow> packetIndicator \<Rightarrow> quintuple" where
  "qPortDist env indicator encappedIndicator =
     \<lparr>q_SrcIP = IPString env (SrcIP encappedIndicator),
      q_SrcPort = SrcPort encappedIndicator,
      q_DstIP = IPString env (SrcIP indicator),
      q_DstPort = SrcPort indicator,
      q_Protocol = TransportLayerType encappedIndicator\<rparr>"

definition qNAT :: "env \<Rightarrow> Server \<Rightarrow> packetIndicator \<Rightarrow> quintuple" where
  "qNAT env p encappedIndicator =
     \<lparr>q_SrcIP = IPString env (IPv4Addr (UpDev p)),
      q_SrcPort = SrcPort encappedIndicator,
      q_DstIP = IPString env (DstIP encappedIndicator),
      q_DstPort = DstPort encappedIndicator,
      q_Protocol = TransportLayerType encappedIndicator\<rparr>"

definition qUpstream :: "env \<Rightarrow> packetIndicator \<Rightarrow> quintuple" where
  "qUpstream env indicator =
     \<lparr>q_SrcIP = IPString env (DstIP indicator),
      q_SrcPort = DstPort indicator,
      q_DstIP = IPString env (SrcIP indicator),
      q_DstPort = SrcPort indicator,
      q_Protocol = TransportLayerType indicator\<rparr>"

subsection \<open>handshake\<close>

text \<open>
  \<open>handshake\<close>, lines 145 to 230. The result is the server after the call, the events
  and the returned error (\<open>None\<close> for nil). The two session entries are written before
  anything can fail, so they stay when the function returns an error.
\<close>

definition handshake :: "env \<Rightarrow> Server \<Rightarrow> packetIndicator \<Rightarrow> Server \<times> event list \<times> error option" where
  "handshake env p indicator =
     (let srcAddr = SrcAddr env indicator;
          p = p\<lparr>seqs := (seqs p)(srcAddr \<mapsto> 0)\<rparr>;
          p = p\<lparr>acks := (acks p)(srcAddr \<mapsto> Seq indicator + 1)\<rparr>;
          newTransportLayer =
            createTCPLayerSYNACK (ListenPort p) (SrcPort indicator)
              (mapGet (seqs p) srcAddr) (mapGet (acks p) srcAddr);
          newNetworkLayerType =
            (if To4 (DstIP indicator) \<noteq> [] then LayerTypeIPv4 else LayerTypeIPv6)
      in case createNetworkLayer env newNetworkLayerType (DstIP indicator) (DstIP indicator)
                (SrcIP indicator) (id' p) 128 newTransportLayer of
           Inl err \<Rightarrow> (p, [], Some (Wrap ''handshake'' err))
         | Inr newNetworkLayer \<Rightarrow>
             (let newLinkLayerType =
                    (if IsLoop (UpDev p) then LayerTypeLoopback else LayerTypeEthernet)
              in case createLinkLayer env p newLinkLayerType newNetworkLayer of
                   Inl err \<Rightarrow> (p, [], Some (Wrap ''handshake'' err))
                 | Inr newLinkLayer \<Rightarrow>
                     (case serialize env newLinkLayer newNetworkLayer newTransportLayer None of
                        Some err \<Rightarrow> (p, [], Some (Wrap ''handshake'' err))
                      | None \<Rightarrow>
                          (let data = \<lparr>f_link = newLinkLayer, f_network = newNetworkLayer,
                                       f_transport = newTransportLayer, f_payload = None\<rparr>
                           in case WritePacketData env (upHandle p) data of
                                Some err \<Rightarrow> (p, [], Some (Wrap ''handshake'' (Wrap ''write'' err)))
                              | None \<Rightarrow>
                                  ((case newNetworkLayerType of
                                      LayerTypeIPv4 \<Rightarrow> p\<lparr>id' := id' p + 1\<rparr>
                                    | ty \<Rightarrow> p),
                                   [Wrote (upHandle p) data], None)))))"

subsection \<open>handleListen\<close>

text \<open>
  \<open>handleListen\<close>, lines 232 to 381; \<open>handle\<close> is the listen handle the packet was read
  from. The function is embedded in two parts. \<open>redirectInbound\<close> is its second half,
  lines 276 to 380, entered once the payload has been parsed as an IP packet: a port is
  distributed; the transport layer, the network layer and the link layer are made; the
  reverse entry is recorded; the frame is serialized and written to the upstream handle.
  The map \<open>portDist\<close> is read at line 284 and written nowhere in the file.
\<close>

definition redirectInbound ::
  "env \<Rightarrow> Server \<Rightarrow> packetIndicator \<Rightarrow> packetIndicator \<Rightarrow> packet \<Rightarrow> handle \<Rightarrow> Server \<times> event list" where
  "redirectInbound env p indicator encappedIndicator packet handle =
     (let qPortDist' = qPortDist env indicator encappedIndicator;
          (distPort', p) = distribute p qPortDist'
      in case setSrcPort ''create transport layer'' (TransportLayer encappedIndicator) distPort' of
           Inl err \<Rightarrow> (p, [Println (Wrap ''handle listen'' err)])
         | Inr transportLayer \<Rightarrow>
             (case createNetworkLayer env (NetworkLayerType encappedIndicator)
                     (IPv4Addr (UpDev p)) (IPv6Addr (UpDev p)) (DstIP encappedIndicator)
                     (Id' encappedIndicator) (TTL encappedIndicator - 1) transportLayer of
                Inl err \<Rightarrow> (p, [Println (Wrap ''handle listen'' err)])
              | Inr newNetworkLayer \<Rightarrow>
                  (let newLinkLayerType =
                         (if IsLoop (UpDev p) then LayerTypeLoopback else LayerTypeEthernet)
                   in case createLinkLayer env p newLinkLayerType newNetworkLayer of
                        Inl err \<Rightarrow> (p, [Println (Wrap ''handle listen'' err)])
                      | Inr newLinkLayer \<Rightarrow>
                          (let qNAT' = qNAT env p encappedIndicator;
                               ps = \<lparr>ps_SrcIP = IPString env (SrcIP indicator),
                                     ps_SrcPort = SrcPort indicator,
                                     ps_EncappedSrcIP = q_SrcIP qPortDist',
                                     ps_EncappedSrcPort = q_SrcPort qPortDist',
                                     ps_Handle = handle\<rparr>;
                               p = p\<lparr>nat' := (nat' p)(qNAT' \<mapsto> ps)\<rparr>
                           in case serialize env newLinkLayer newNetworkLayer transportLayer
                                     (Payload encappedIndicator) of
                                Some err \<Rightarrow> (p, [Println (Wrap ''handle listen'' err)])
                              | None \<Rightarrow>
                                  (let data = \<lparr>f_link = newLinkLayer,
                                               f_network = newNetworkLayer,
                                               f_transport = transportLayer,
                                               f_payload = Payload encappedIndicator\<rparr>;
                                       info = PrintInbound (TransportLayerType encappedIndicator)
                                                (SrcAddr env encappedIndicator)
                                                (DstAddr env encappedIndicator)
                                                (pkt_Length packet)
                                   in case WritePacketData env (upHandle p) data of
                                        Some err \<Rightarrow>
                                          (p, [Println (Wrap ''handle listen''
                                                          (Wrap ''write'' err)), info])
                                      | None \<Rightarrow> (p, [Wrote (upHandle p) data, info]))))))"

text \<open>
  The first half, lines 232 to 274: parse; a SYN is answered by \<open>handshake\<close>; a segment
  with no payload is ignored; the ack counter is advanced; the payload is parsed as an IP
  packet.
\<close>

definition handleListen :: "env \<Rightarrow> Server \<Rightarrow> packet \<Rightarrow> handle \<Rightarrow> Server \<times> event list" where
  "handleListen env p packet handle =
     (case parsePacket env packet of
        Inl err \<Rightarrow> (p, [Println (Wrap ''handle listen'' err)])
      | Inr indicator \<Rightarrow>
          if SYN indicator then
            (case handshake env p indicator of
               (p, out, Some err) \<Rightarrow> (p, out @ [Println (Wrap ''handle listen'' err)])
             | (p, out, None) \<Rightarrow>
                 (p, out @ [PrintConnect (SrcIP indicator) (SrcPort indicator)]))
          else
            (case ApplicationLayer indicator of
               None \<Rightarrow> (p, [])
             | Some contents \<Rightarrow>
                 (let srcAddr = SrcAddr env indicator;
                      p = p\<lparr>acks := (acks p)(srcAddr \<mapsto>
                                 mapGet (acks p) srcAddr + of_nat (length contents))\<rparr>
                  in case parseEncappedPacket env contents of
                       Inl err \<Rightarrow> (p, [Println (Wrap ''handle listen'' err)])
                     | Inr encappedIndicator \<Rightarrow>
                         redirectInbound env p indicator encappedIndicator packet handle)))"

subsection \<open>handleUpstream\<close>

text \<open>
  \<open>handleUpstream\<close>, lines 383 to 525, in two parts as well. \<open>redirectOutbound\<close> is its
  second half, lines 414 to 525, entered with the reverse entry \<open>ps\<close> that the lookup
  found. The variable \<open>newLinkLayerType\<close> is declared at line 390 and assigned nowhere in
  the function: at the switch of line 483 it holds the zero value. The default branch of
  the switch on the network layer kind (lines 437 to 441) prints and does not return.
  \<open>addr\<close> is \<open>fmt.Sprintf("%s:%d", ps.SrcIP, ps.SrcPort)\<close>.
\<close>

definition redirectOutbound ::
  "env \<Rightarrow> Server \<Rightarrow> packetIndicator \<Rightarrow> encappedPacketSrc \<Rightarrow> packet \<Rightarrow> Server \<times> event list" where
  "redirectOutbound env p indicator ps packet =
     (case setSrcPort ''create encapped transport layer'' (TransportLayer indicator)
             (ps_EncappedSrcPort ps) of
        Inl err \<Rightarrow> (p, [Println (Wrap ''handle upstream'' err)])
      | Inr transportLayer \<Rightarrow>
          (let (networkLayer, out) =
                 (case NetworkLayer indicator of
                    IPv4 ipv4Layer \<Rightarrow>
                      (IPv4 (ipv4Layer\<lparr>ip4_SrcIP := ParseIP env (ps_EncappedSrcIP ps)\<rparr>), [])
                  | IPv6 ipv6Layer \<Rightarrow>
                      (IPv6 (ipv6Layer\<lparr>ip6_SrcIP := ParseIP env (ps_EncappedSrcIP ps)\<rparr>), [])
                  | OtherNetwork n \<Rightarrow>
                      (OtherNetwork n,
                       [Println (Wrap ''handle upstream''
                          (Wrap ''create encapped network layer''
                             (TypeNotSupport (LayerTypeOther n))))]));
               contents = Contents env (indicator\<lparr>NetworkLayer := networkLayer,
                                                    TransportLayer := transportLayer\<rparr>);
               addr = ps_SrcIP ps @ '':'' @ decimal (unat (ps_SrcPort ps));
               newTransportLayer =
                 createTransportLayerTCP (ListenPort p) (ps_SrcPort ps)
                   (mapGet (seqs p) addr) (mapGet (acks p) addr);
               isIPv4 = (To4 (IPAddr (GatewayDev p)) \<noteq> []);
               upDevIP = (if isIPv4 then IPv4Addr (UpDev p) else IPv6Addr (UpDev p));
               newNetworkLayerType = (if isIPv4 then LayerTypeIPv4 else LayerTypeIPv6)
           in if upDevIP = [] then
                (p, out @ [Println (Wrap ''handle upstream''
                             (ErrorNew ''ip version transition not support''))])
              else
                (case createNetworkLayer env newNetworkLayerType upDevIP upDevIP
                        (ParseIP env (ps_SrcIP ps)) (id' p) (TTL indicator - 1)
                        newTransportLayer of
                   Inl err \<Rightarrow> (p, out @ [Println (Wrap ''handle upstream'' err)])
                 | Inr newNetworkLayer \<Rightarrow>
                     (let newLinkLayerType = LayerTypeZero
                      in case createLinkLayer env p newLinkLayerType newNetworkLayer of
                           Inl err \<Rightarrow> (p, out @ [Println (Wrap ''handle upstream'' err)])
                         | Inr newLinkLayer \<Rightarrow>
                             (case serialize env newLinkLayer newNetworkLayer newTransportLayer
                                     (Some contents) of
                                Some err \<Rightarrow> (p, out @ [Println (Wrap ''handle upstream'' err)])
                              | None \<Rightarrow>
                                  (let data = \<lparr>f_link = newLinkLayer,
                                               f_network = newNetworkLayer,
                                               f_transport = newTransportLayer,
                                               f_payload = Some contents\<rparr>
                                   in case WritePacketData env (ps_Handle ps) data of
                                        Some err \<Rightarrow>
                                          (p, out @ [Println (Wrap ''handle upstream''
                                                               (Wrap ''write'' err))])
                                      | None \<Rightarrow>
                                          (let p = p\<lparr>seqs := (seqs p)(addr \<mapsto>
                                                     mapGet (seqs p) addr
                                                       + of_nat (length contents))\<rparr>;
                                               p = (case newNetworkLayerType of
                                                      LayerTypeIPv4 \<Rightarrow> p\<lparr>id' := id' p + 1\<rparr>
                                                    | ty \<Rightarrow> p)
                                           in (p, out @
                                                 [Wrote (ps_Handle ps) data,
                                                  PrintOutbound (TransportLayerType indicator)
                                                    (SrcAddr env indicator)
                                                    (DstAddr env indicator)
                                                    (pkt_Length packet)]))))))))"

text \<open>The first half, lines 383 to 412: parse, then look the reverse entry up.\<close>

definition handleUpstream :: "env \<Rightarrow> Server \<Rightarrow> packet \<Rightarrow> Server \<times> event list" where
  "handleUpstream env p packet =
     (case parsePacket env packet of
        Inl err \<Rightarrow> (p, [Println (Wrap ''handle upstream'' err)])
      | Inr indicator \<Rightarrow>
          (let q = qUpstream env indicator
           in case nat' p q of
                None \<Rightarrow> (p, [])
              | Some ps \<Rightarrow> redirectOutbound env p indicator ps packet))"

text \<open>
  The reader loops of \<open>Open\<close>, lines 124 to 126 and 130 to 132, on a finite sequence of
  captured packets: the handler is called on each packet in turn.
\<close>

datatype capture = Listen packet handle | Upstream packet

definition handlePacket :: "env \<Rightarrow> Server \<Rightarrow> capture \<Rightarrow> Server \<times> event list" where
  "handlePacket env p c =
     (case c of
        Listen packet handle \<Rightarrow> handleListen env p packet handle
      | Upstream packet \<Rightarrow> handleUpstream env p packet)"

fun handlePackets :: "env \<Rightarrow> Server \<Rightarrow> capture list \<Rightarrow> Server \<times> event list" where
  "handlePackets env p [] = (p, [])"
| "handlePackets env p (c # cs) =
     (case handlePacket env p c of
        (p1, out1) \<Rightarrow> (case handlePackets env p1 cs of (p2, out2) \<Rightarrow> (p2, out1 @ out2)))"

subsection \<open>Observing the port a data packet is given\<close>

text \<open>
  An ingress data packet is a captured packet that \<open>handleListen\<close> takes as far as the
  block "Distribute port": it parses, it is not a SYN, it has a payload, and the payload
  parses as an IP packet. \<open>allocated env p packet\<close> is the value of the local variable
  \<open>distPort\<close> after that block (line 288) when \<open>handleListen\<close> runs on \<open>packet\<close> in the
  state \<open>p\<close>, and \<open>None\<close> when it returns earlier. \<open>frameSrcPort\<close> reads the transport
  source port of a written frame.
\<close>

definition dataPacket :: "env \<Rightarrow> packet \<Rightarrow> bool" where
  "dataPacket env packet =
     (case parsePacket env packet of
        Inl err \<Rightarrow> False
      | Inr indicator \<Rightarrow>
          \<not> SYN indicator \<and>
          (case ApplicationLayer indicator of
             None \<Rightarrow> False
           | Some contents \<Rightarrow>
               (case parseEncappedPacket env contents of
                  Inl err \<Rightarrow> False
                | Inr encappedIndicator \<Rightarrow> True)))"

definition dataCapture :: "env \<Rightarrow> capture \<Rightarrow> bool" where
  "dataCapture env c =
     (case c of Listen packet handle \<Rightarrow> dataPacket env packet | Upstream packet \<Rightarrow> False)"

definition allocated :: "env \<Rightarrow> Server \<Rightarrow> packet \<Rightarrow> u16 option" where
  "allocated env p packet =
     (case parsePacket env packet of
        Inl err \<Rightarrow> None
      | Inr indicator \<Rightarrow>
          if SYN indicator then None
          else
            (case ApplicationLayer indicator of
               None \<Rightarrow> None
             | Some contents \<Rightarrow>
                 (case parseEncappedPacket env contents of
                    Inl err \<Rightarrow> None
                  | Inr encappedIndicator \<Rightarrow>
                      Some (fst (distribute p (qPortDist env indicator encappedIndicator))))))"

definition frameSrcPort :: "frame \<Rightarrow> u16 option" where
  "frameSrcPort f =
     (case f_transport f of
        TCP l \<Rightarrow> Some (tcp_SrcPort l)
      | UDP l \<Rightarrow> Some (udp_SrcPort l)
      | OtherTransport n \<Rightarrow> None)"

section \<open>The concrete scenarios of the spec\<close>

text \<open>
  Section 8 of the spec gives concrete scenarios: a client at 10.0.0.2:40000, the server
  listening at 192.0.2.1:8080 with the upstream address 198.51.100.1, an inner UDP flow
  10.0.0.2:55555 to 8.8.8.8:53 with TTL 64 and id 7, a second flow 10.0.0.2:55556 to
  1.1.1.1:53. The definitions of this section set these scenarios up, so that the
  theorems can be run on them.

  The decoders and builders are outside server.go. The scenario environment decodes the
  packets of the scenarios by table, renders addresses as the Go library does for the
  addresses that occur, and builds layers field by field as section 4.1 of the spec
  describes \<open>build_ipv4\<close>, \<open>build_ipv6\<close> and \<open>build_ethernet\<close>; serializing and writing
  succeed.
\<close>

definition ip_client :: IP where "ip_client = [10, 0, 0, 2]"
definition ip_listen :: IP where "ip_listen = [192, 0, 2, 1]"
definition ip_up4 :: IP where "ip_up4 = [198, 51, 100, 1]"
definition ip_gateway :: IP where "ip_gateway = [198, 51, 100, 254]"
definition ip_dns1 :: IP where "ip_dns1 = [8, 8, 8, 8]"
definition ip_dns2 :: IP where "ip_dns2 = [1, 1, 1, 1]"

text \<open>2001:db8::1, the upstream IPv6 address, and 2001:4860:4860::8888.\<close>

definition ip_up6 :: IP where
  "ip_up6 = [0x20, 0x01, 0x0d, 0xb8, 0, 0, 0, 0, 0, 0, 0, 0, 0, 0, 0, 1]"

definition ip_dns6 :: IP where
  "ip_dns6 = [0x20, 0x01, 0x48, 0x60, 0x48, 0x60, 0, 0, 0, 0, 0, 0, 0, 0, 0x88, 0x88]"

text \<open>2001:db8::2, an inner IPv6 source.\<close>

definition ip_client6 :: IP where
  "ip_client6 = [0x20, 0x01, 0x0d, 0xb8, 0, 0, 0, 0, 0, 0, 0, 0, 0, 0, 0, 2]"

definition dotted :: "IP \<Rightarrow> string" where
  "dotted ip =
     decimal (unat (ip ! 0)) @ ''.'' @ decimal (unat (ip ! 1)) @ ''.'' @
     decimal (unat (ip ! 2)) @ ''.'' @ decimal (unat (ip ! 3))"

definition sc_IPString :: "IP \<Rightarrow> string" where
  "sc_IPString ip =
     (if ip = [] then ''<nil>''
      else if To4 ip \<noteq> [] then dotted (To4 ip)
      else if ip = ip_up6 then ''2001:db8::1''
      else if ip = ip_client6 then ''2001:db8::2''
      else if ip = ip_dns6 then ''2001:4860:4860::8888''
      else ''?'')"

definition sc_ParseIP :: "string \<Rightarrow> IP" where
  "sc_ParseIP s =
     (if s = ''10.0.0.2'' then ip_client
      else if s = ''192.0.2.1'' then ip_listen
      else if s = ''198.51.100.1'' then ip_up4
      else if s = ''8.8.8.8'' then ip_dns1
      else if s = ''1.1.1.1'' then ip_dns2
      else if s = ''2001:db8::1'' then ip_up6
      else if s = ''2001:db8::2'' then ip_client6
      else if s = ''2001:4860:4860::8888'' then ip_dns6
      else [])"

text \<open>The carrier segments of the client, as parsed: a SYN with sequence number \<open>s\<close>,
  and a data segment carrying \<open>contents\<close>.\<close>

definition carrier :: "u32 \<Rightarrow> bool \<Rightarrow> bytes option \<Rightarrow> packetIndicator" where
  "carrier s syn contents =
     \<lparr>NetworkLayer = IPv4 \<lparr>ip4_SrcIP = ip_client, ip4_DstIP = ip_listen, ip4_Id = 1, ip4_TTL = 64\<rparr>,
      TransportLayer = TCP \<lparr>tcp_SrcPort = 40000, tcp_DstPort = 8080, tcp_Seq = s, tcp_Ack = 0,
                            tcp_SYN = syn, tcp_ACK = \<not> syn\<rparr>,
      ApplicationLayer = contents,
      SrcIP = ip_client, SrcPort = 40000, DstIP = ip_listen, DstPort = 8080,
      Id' = 1, TTL = 64, Seq = s, SYN = syn\<rparr>"

text \<open>An IPv4 packet with a UDP datagram, as parsed.\<close>

definition udp4 :: "IP \<Rightarrow> u16 \<Rightarrow> IP \<Rightarrow> u16 \<Rightarrow> u16 \<Rightarrow> u8 \<Rightarrow> bytes \<Rightarrow> packetIndicator" where
  "udp4 src sport dst dport ident ttl body =
     \<lparr>NetworkLayer = IPv4 \<lparr>ip4_SrcIP = src, ip4_DstIP = dst, ip4_Id = ident, ip4_TTL = ttl\<rparr>,
      TransportLayer = UDP \<lparr>udp_SrcPort = sport, udp_DstPort = dport\<rparr>,
      ApplicationLayer = Some body,
      SrcIP = src, SrcPort = sport, DstIP = dst, DstPort = dport,
      Id' = ident, TTL = ttl, Seq = 0, SYN = False\<rparr>"

text \<open>An IPv6 packet with a UDP datagram, as parsed.\<close>

definition udp6 :: "IP \<Rightarrow> u16 \<Rightarrow> IP \<Rightarrow> u16 \<Rightarrow> u8 \<Rightarrow> bytes \<Rightarrow> packetIndicator" where
  "udp6 src sport dst dport hops body =
     \<lparr>NetworkLayer = IPv6 \<lparr>ip6_SrcIP = src, ip6_DstIP = dst, ip6_HopLimit = hops\<rparr>,
      TransportLayer = UDP \<lparr>udp_SrcPort = sport, udp_DstPort = dport\<rparr>,
      ApplicationLayer = Some body,
      SrcIP = src, SrcPort = sport, DstIP = dst, DstPort = dport,
      Id' = 0, TTL = hops, Seq = 0, SYN = False\<rparr>"

text \<open>
  The bytes of the inner packets stand for their encodings: only their length matters
  to the handlers (40 bytes for an IPv4 header, a UDP header and 12 bytes; 60 bytes with
  an IPv6 header), and the first byte tells them apart.
\<close>

definition inner1 :: bytes where "inner1 = 1 # replicate 39 0"
definition inner2 :: bytes where "inner2 = 2 # replicate 39 0"
definition inner_ttl0 :: bytes where "inner_ttl0 = 3 # replicate 39 0"
definition inner6 :: bytes where "inner6 = 4 # replicate 59 0"
definition inner_bad :: bytes where "inner_bad = [5, 0, 0]"

definition body12 :: bytes where "body12 = replicate 12 7"

definition sc_parseEncappedPacket :: "bytes \<Rightarrow> error + packetIndicator" where
  "sc_parseEncappedPacket b =
     (if b = inner1 then Inr (udp4 ip_client 55555 ip_dns1 53 7 64 body12)
      else if b = inner2 then Inr (udp4 ip_client 55556 ip_dns2 53 8 64 body12)
      else if b = inner_ttl0 then Inr (udp4 ip_client 55557 ip_dns1 53 9 0 body12)
      else if b = inner6 then Inr (udp6 ip_client6 55558 ip_dns6 53 64 body12)
      else Inl (ErrorNew ''parse encapped packet''))"

text \<open>The captured packets: on a listen handle the client's SYN with sequence number 42,
  a second SYN with sequence number 5, and one data segment for each inner packet; on
  the upstream handle the reply of scenario 3, addressed to port 49152, and a reply
  addressed to port 55555.\<close>

definition pkt_syn :: packet where "pkt_syn = \<lparr>pkt_Data = [1], pkt_Length = 54\<rparr>"
definition pkt_syn5 :: packet where "pkt_syn5 = \<lparr>pkt_Data = [2], pkt_Length = 54\<rparr>"
definition pkt_data1 :: packet where "pkt_data1 = \<lparr>pkt_Data = [3], pkt_Length = 94\<rparr>"
definition pkt_data2 :: packet where "pkt_data2 = \<lparr>pkt_Data = [4], pkt_Length = 94\<rparr>"
definition pkt_ttl0 :: packet where "pkt_ttl0 = \<lparr>pkt_Data = [5], pkt_Length = 94\<rparr>"
definition pkt_data6 :: packet where "pkt_data6 = \<lparr>pkt_Data = [6], pkt_Length = 114\<rparr>"
definition pkt_bad :: packet where "pkt_bad = \<lparr>pkt_Data = [7], pkt_Length = 57\<rparr>"
definition pkt_reply :: packet where "pkt_reply = \<lparr>pkt_Data = [8], pkt_Length = 72\<rparr>"
definition pkt_reply55555 :: packet where "pkt_reply55555 = \<lparr>pkt_Data = [9], pkt_Length = 72\<rparr>"

definition sc_parsePacket :: "packet \<Rightarrow> error + packetIndicator" where
  "sc_parsePacket k =
     (if k = pkt_syn then Inr (carrier 42 True None)
      else if k = pkt_syn5 then Inr (carrier 5 True None)
      else if k = pkt_data1 then Inr (carrier 43 False (Some inner1))
      else if k = pkt_data2 then Inr (carrier 83 False (Some inner2))
      else if k = pkt_ttl0 then Inr (carrier 43 False (Some inner_ttl0))
      else if k = pkt_data6 then Inr (carrier 43 False (Some inner6))
      else if k = pkt_bad then Inr (carrier 43 False (Some inner_bad))
      else if k = pkt_reply then Inr (udp4 ip_dns1 53 ip_up4 49152 11 57 (replicate 30 0))
      else if k = pkt_reply55555 then Inr (udp4 ip_dns1 53 ip_up4 55555 11 57 (replicate 30 0))
      else Inl (ErrorNew ''parse packet''))"

definition sc_env :: env where
  "sc_env =
     \<lparr>parsePacket = sc_parsePacket,
      parseEncappedPacket = sc_parseEncappedPacket,
      IPString = sc_IPString,
      ParseIP = sc_ParseIP,
      createNetworkLayerIPv4 = (\<lambda>src dst ident ttl l.
        Inr (IPv4 \<lparr>ip4_SrcIP = src, ip4_DstIP = dst, ip4_Id = ident, ip4_TTL = ttl\<rparr>)),
      createNetworkLayerIPv6 = (\<lambda>src dst l.
        Inr (IPv6 \<lparr>ip6_SrcIP = src, ip6_DstIP = dst, ip6_HopLimit = 64\<rparr>)),
      createLinkLayerEthernet = (\<lambda>src dst l.
        Inr (Ethernet \<lparr>eth_SrcMAC = src, eth_DstMAC = dst\<rparr>)),
      serialize = (\<lambda>l n t b. None),
      WritePacketData = (\<lambda>h f. None),
      Contents = (\<lambda>i. replicate 58 0)\<rparr>"

text \<open>The server of the scenarios right after the first lines of \<open>Open\<close>: listen port
  8080, an Ethernet upstream device, upstream handle 0, empty tables, both counters 0.
  \<open>listen1\<close> and \<open>listen2\<close> are two listen handles.\<close>

definition sc_updev :: Device where
  "sc_updev = \<lparr>IsLoop = False, HardwareAddr = [2, 0, 0, 0, 0, 1],
               IPv4Addr = ip_up4, IPv6Addr = ip_up6, IPAddr = ip_up4\<rparr>"

definition sc_gateway :: Device where
  "sc_gateway = \<lparr>IsLoop = False, HardwareAddr = [2, 0, 0, 0, 0, 254],
                 IPv4Addr = ip_gateway, IPv6Addr = [], IPAddr = ip_gateway\<rparr>"

definition listen1 :: handle where "listen1 = 1"
definition listen2 :: handle where "listen2 = 2"

definition sc_server :: Server where
  "sc_server =
     Open \<lparr>ListenPort = 8080, UpDev = sc_updev, GatewayDev = sc_gateway, upHandle = 0,
           seqs = Map.empty, acks = Map.empty, id' = 0, port = 0,
           portDist = Map.empty, nat' = Map.empty\<rparr>"

text \<open>The link layer of every frame the scenarios send upstream, the expected forward key
  of the first inner flow (section 4.3 of the spec), and the reverse key and entry that
  \<open>handleListen\<close> writes for it.\<close>

definition eth_up :: linkLayer where
  "eth_up = Ethernet \<lparr>eth_SrcMAC = [2, 0, 0, 0, 0, 1], eth_DstMAC = [2, 0, 0, 0, 0, 254]\<rparr>"

definition flow1 :: quintuple where
  "flow1 = \<lparr>q_SrcIP = ''10.0.0.2'', q_SrcPort = 55555, q_DstIP = ''10.0.0.2'',
            q_DstPort = 40000, q_Protocol = LayerTypeUDP\<rparr>"

definition key1 :: quintuple where
  "key1 = \<lparr>q_SrcIP = ''198.51.100.1'', q_SrcPort = 55555, q_DstIP = ''8.8.8.8'',
           q_DstPort = 53, q_Protocol = LayerTypeUDP\<rparr>"

definition entry1 :: encappedPacketSrc where
  "entry1 = \<lparr>ps_SrcIP = ''10.0.0.2'', ps_SrcPort = 40000, ps_EncappedSrcIP = ''10.0.0.2'',
             ps_EncappedSrcPort = 55555, ps_Handle = listen1\<rparr>"

text \<open>The frame that answers the SYN of the scenarios, and the frame that forwards an
  inner UDP packet to \<open>dst\<close>, port 53, with the given source port, id and TTL.\<close>

definition frame_synack :: frame where
  "frame_synack =
     \<lparr>f_link = eth_up,
      f_network = IPv4 \<lparr>ip4_SrcIP = ip_listen, ip4_DstIP = ip_client, ip4_Id = 0, ip4_TTL = 128\<rparr>,
      f_transport = TCP \<lparr>tcp_SrcPort = 8080, tcp_DstPort = 40000, tcp_Seq = 0, tcp_Ack = 43,
                          tcp_SYN = True, tcp_ACK = True\<rparr>,
      f_payload = None\<rparr>"

definition frame_udp :: "u16 \<Rightarrow> IP \<Rightarrow> u16 \<Rightarrow> u8 \<Rightarrow> frame" where
  "frame_udp sport dst ident ttl =
     \<lparr>f_link = eth_up,
      f_network = IPv4 \<lparr>ip4_SrcIP = ip_up4, ip4_DstIP = dst, ip4_Id = ident, ip4_TTL = ttl\<rparr>,
      f_transport = UDP \<lparr>udp_SrcPort = sport, udp_DstPort = 53\<rparr>,
      f_payload = Some body12\<rparr>"

text \<open>The server after the SYN, and after the SYN and the first data segment.\<close>

definition sc_server1 :: Server where
  "sc_server1 = sc_server\<lparr>seqs := [''10.0.0.2:40000'' \<mapsto> 0],
                          acks := [''10.0.0.2:40000'' \<mapsto> 43], id' := 1\<rparr>"

definition sc_server2 :: Server where
  "sc_server2 = sc_server1\<lparr>acks := [''10.0.0.2:40000'' \<mapsto> 83], port := 1,
                           nat' := [key1 \<mapsto> entry1]\<rparr>"

section \<open>Evaluating the scenarios\<close>

lemmas ip_defs = ip_client_def ip_listen_def ip_up4_def ip_gateway_def ip_dns1_def ip_dns2_def
  ip_up6_def ip_dns6_def ip_client6_def

lemmas pkt_defs = pkt_syn_def pkt_syn5_def pkt_data1_def pkt_data2_def pkt_ttl0_def
  pkt_data6_def pkt_bad_def pkt_reply_def pkt_reply55555_def

lemmas inner_defs = inner1_def inner2_def inner_ttl0_def inner6_def inner_bad_def

lemma sc_parsePacket_simps [simp]:
  "parsePacket sc_env pkt_syn = Inr (carrier 42 True None)"
  "parsePacket sc_env pkt_syn5 = Inr (carrier 5 True None)"
  "parsePacket sc_env pkt_data1 = Inr (carrier 43 False (Some inner1))"
  "parsePacket sc_env pkt_data2 = Inr (carrier 83 False (Some inner2))"
  "parsePacket sc_env pkt_ttl0 = Inr (carrier 43 False (Some inner_ttl0))"
  "parsePacket sc_env pkt_data6 = Inr (carrier 43 False (Some inner6))"
  "parsePacket sc_env pkt_bad = Inr (carrier 43 False (Some inner_bad))"
  "parsePacket sc_env pkt_reply = Inr (udp4 ip_dns1 53 ip_up4 49152 11 57 (replicate 30 0))"
  "parsePacket sc_env pkt_reply55555 = Inr (udp4 ip_dns1 53 ip_up4 55555 11 57 (replicate 30 0))"
  by (simp_all add: sc_env_def sc_parsePacket_def pkt_defs)

lemma sc_pkt_Length_simps [simp]:
  "pkt_Length pkt_syn = 54" "pkt_Length pkt_data1 = 94" "pkt_Length pkt_data2 = 94"
  "pkt_Length pkt_ttl0 = 94" "pkt_Length pkt_data6 = 114" "pkt_Length pkt_reply55555 = 72"
  by (simp_all add: pkt_defs)

lemma sc_parseEncappedPacket_simps [simp]:
  "parseEncappedPacket sc_env inner1 = Inr (udp4 ip_client 55555 ip_dns1 53 7 64 body12)"
  "parseEncappedPacket sc_env inner2 = Inr (udp4 ip_client 55556 ip_dns2 53 8 64 body12)"
  "parseEncappedPacket sc_env inner_ttl0 = Inr (udp4 ip_client 55557 ip_dns1 53 9 0 body12)"
  "parseEncappedPacket sc_env inner6 = Inr (udp6 ip_client6 55558 ip_dns6 53 64 body12)"
  "parseEncappedPacket sc_env inner_bad = Inl (ErrorNew ''parse encapped packet'')"
  by (simp_all add: sc_env_def sc_parseEncappedPacket_def inner_defs)

lemma sc_length_simps [simp]:
  "length inner1 = 40" "length inner2 = 40" "length inner_ttl0 = 40" "length inner6 = 60"
  "length inner_bad = 3"
  by (simp_all add: inner_defs)

lemma sc_IPString_simps [simp]:
  "IPString sc_env ip_client = ''10.0.0.2''"
  "IPString sc_env ip_listen = ''192.0.2.1''"
  "IPString sc_env ip_up4 = ''198.51.100.1''"
  "IPString sc_env ip_dns1 = ''8.8.8.8''"
  "IPString sc_env ip_dns2 = ''1.1.1.1''"
  "IPString sc_env ip_up6 = ''2001:db8::1''"
  "IPString sc_env ip_client6 = ''2001:db8::2''"
  "IPString sc_env ip_dns6 = ''2001:4860:4860::8888''"
  by (simp_all add: sc_env_def sc_IPString_def To4_def dotted_def ip_defs decimal.simps)

lemma sc_To4_simps [simp]:
  "To4 ip_listen = ip_listen" "To4 ip_gateway = ip_gateway" "ip_listen \<noteq> []" "ip_gateway \<noteq> []"
  "ip_up4 \<noteq> []"
  by (simp_all add: To4_def ip_defs)

lemma sc_decimal_simps [simp]:
  "decimal 40000 = ''40000''" "decimal 53 = ''53''" "decimal 55555 = ''55555''"
  "decimal 55556 = ''55556''" "decimal 55557 = ''55557''" "decimal 55558 = ''55558''"
  "decimal 49152 = ''49152''"
  by (simp_all add: decimal.simps)

lemma sc_env_simps [simp]:
  "createNetworkLayerIPv4 sc_env src dst ident ttl l =
     Inr (IPv4 \<lparr>ip4_SrcIP = src, ip4_DstIP = dst, ip4_Id = ident, ip4_TTL = ttl\<rparr>)"
  "createNetworkLayerIPv6 sc_env src dst l =
     Inr (IPv6 \<lparr>ip6_SrcIP = src, ip6_DstIP = dst, ip6_HopLimit = 64\<rparr>)"
  "createLinkLayerEthernet sc_env s d n = Inr (Ethernet \<lparr>eth_SrcMAC = s, eth_DstMAC = d\<rparr>)"
  "serialize sc_env ll nl t b = None"
  "WritePacketData sc_env h f = None"
  by (simp_all add: sc_env_def)

lemma sc_server_simps [simp]:
  "ListenPort sc_server = 8080" "UpDev sc_server = sc_updev" "GatewayDev sc_server = sc_gateway"
  "upHandle sc_server = 0" "seqs sc_server = Map.empty" "acks sc_server = Map.empty"
  "id' sc_server = 0" "port sc_server = 0" "portDist sc_server = Map.empty"
  "nat' sc_server = Map.empty"
  by (simp_all add: sc_server_def Open_def)

lemma sc_device_simps [simp]:
  "IsLoop sc_updev = False" "HardwareAddr sc_updev = [2, 0, 0, 0, 0, 1]"
  "IPv4Addr sc_updev = ip_up4" "IPv6Addr sc_updev = ip_up6"
  "HardwareAddr sc_gateway = [2, 0, 0, 0, 0, 254]" "IPAddr sc_gateway = ip_gateway"
  by (simp_all add: sc_updev_def sc_gateway_def)

lemma carrier_simps [simp]:
  "SrcIP (carrier s syn c) = ip_client" "SrcPort (carrier s syn c) = 40000"
  "DstIP (carrier s syn c) = ip_listen" "DstPort (carrier s syn c) = 8080"
  "Seq (carrier s syn c) = s" "SYN (carrier s syn c) = syn"
  "ApplicationLayer (carrier s syn c) = c"
  "SrcAddr sc_env (carrier s syn c) = ''10.0.0.2:40000''"
  by (simp_all add: carrier_def SrcAddr_def)

section \<open>Facts about the building blocks\<close>

lemma createLinkLayer_Zero:
  "createLinkLayer env p LayerTypeZero n = Inl (Wrap ''create link layer'' (TypeNotSupport LayerTypeZero))"
  by (simp add: createLinkLayer_def)

lemma createLinkLayer_devices:
  "UpDev p' = UpDev p \<Longrightarrow> GatewayDev p' = GatewayDev p \<Longrightarrow>
   createLinkLayer env p' ty n = createLinkLayer env p ty n"
  by (simp add: createLinkLayer_def split: LayerType.splits)

subsection \<open>The port distribution and the keys\<close>

lemma distribute_fields:
  "portDist (snd (distribute p q)) = portDist p"
  "nat' (snd (distribute p q)) = nat' p"
  "seqs (snd (distribute p q)) = seqs p"
  "acks (snd (distribute p q)) = acks p"
  "id' (snd (distribute p q)) = id' p"
  "UpDev (snd (distribute p q)) = UpDev p"
  "GatewayDev (snd (distribute p q)) = GatewayDev p"
  "upHandle (snd (distribute p q)) = upHandle p"
  "ListenPort (snd (distribute p q)) = ListenPort p"
  by (simp_all add: distribute_def split: option.splits)

lemma distribute_acks:
  "distribute (p\<lparr>acks := a\<rparr>) q = (fst (distribute p q), (snd (distribute p q))\<lparr>acks := a\<rparr>)"
  by (simp add: distribute_def distPort_def split: option.splits)

lemma distribute_miss:
  "portDist p q = None \<Longrightarrow> distribute p q = (49152 + port p mod 16384, p\<lparr>port := port p + 1\<rparr>)"
  by (simp add: distribute_def distPort_def)

lemma qPortDist_sel:
  "q_SrcIP (qPortDist env indicator ei) = IPString env (SrcIP ei)"
  "q_SrcPort (qPortDist env indicator ei) = SrcPort ei"
  by (simp_all add: qPortDist_def)

lemma setSrcPort_UDP [simp]:
  "setSrcPort c (UDP u) d = Inr (UDP (u\<lparr>udp_SrcPort := d\<rparr>))"
  by (simp add: setSrcPort_def)

subsection \<open>handshake\<close>

text \<open>Whatever happens later in \<open>handshake\<close>, the state it returns is the state it was
  given with the two session entries written and, possibly, the IPv4 id advanced.\<close>

lemma handshake_state:
  assumes "handshake env p indicator = (p', out, e)"
  shows "\<exists>n. p' = p\<lparr>seqs := (seqs p)(SrcAddr env indicator \<mapsto> 0),
                     acks := (acks p)(SrcAddr env indicator \<mapsto> Seq indicator + 1),
                     id' := n\<rparr>"
proof -
  let ?q = "p\<lparr>seqs := (seqs p)(SrcAddr env indicator \<mapsto> 0),
              acks := (acks p)(SrcAddr env indicator \<mapsto> Seq indicator + 1)\<rparr>"
  have "p' = ?q \<or> p' = ?q\<lparr>id' := id' p + 1\<rparr>"
    using assms
    by (auto simp add: handshake_def Let_def split: sum.splits option.splits if_splits)
  moreover have "?q = ?q\<lparr>id' := id' p\<rparr>" by simp
  ultimately show ?thesis by metis
qed

text \<open>Every frame \<open>handshake\<close> writes goes to the upstream handle and carries the result
  of the SYN+ACK builder on the listen port, the client's port, 0 and the client's
  sequence number plus one.\<close>

lemma handshake_writes:
  assumes "handshake env p indicator = (p', out, e)" and "Wrote h f \<in> set out"
  shows "h = upHandle p \<and> f_payload f = None \<and>
         f_transport f =
           createTCPLayerSYNACK (ListenPort p) (SrcPort indicator) 0 (Seq indicator + 1)"
  using assms
  by (auto simp add: handshake_def Let_def mapGet_def
        split: sum.splits option.splits if_splits)

lemma handshake_ok:
  assumes "createNetworkLayer env
             (if To4 (DstIP indicator) \<noteq> [] then LayerTypeIPv4 else LayerTypeIPv6)
             (DstIP indicator) (DstIP indicator) (SrcIP indicator) (id' p) 128
             (createTCPLayerSYNACK (ListenPort p) (SrcPort indicator) 0 (Seq indicator + 1))
           = Inr nl"
    and "createLinkLayer env p (if IsLoop (UpDev p) then LayerTypeLoopback else LayerTypeEthernet) nl
           = Inr ll"
    and "serialize env ll nl
           (createTCPLayerSYNACK (ListenPort p) (SrcPort indicator) 0 (Seq indicator + 1)) None
         = None"
    and "WritePacketData env (upHandle p)
           \<lparr>f_link = ll, f_network = nl,
            f_transport =
              createTCPLayerSYNACK (ListenPort p) (SrcPort indicator) 0 (Seq indicator + 1),
            f_payload = None\<rparr> = None"
  shows "snd (handshake env p indicator) =
           ([Wrote (upHandle p)
               \<lparr>f_link = ll, f_network = nl,
                f_transport =
                  createTCPLayerSYNACK (ListenPort p) (SrcPort indicator) 0 (Seq indicator + 1),
                f_payload = None\<rparr>],
            None)"
proof -
  let ?p2 = "p\<lparr>seqs := (seqs p)(SrcAddr env indicator \<mapsto> 0),
               acks := (acks p)(SrcAddr env indicator \<mapsto> Seq indicator + 1)\<rparr>"
  have l: "createLinkLayer env ?p2 ty nl = createLinkLayer env p ty nl" for ty
    by (rule createLinkLayer_devices) simp_all
  show ?thesis
    using assms
    by (simp add: handshake_def Let_def l mapGet_def split: if_splits)
qed

lemma handleListen_syn_state:
  assumes "parsePacket env packet = Inr indicator" and "SYN indicator"
  shows "\<exists>n. fst (handleListen env p packet handle) =
               p\<lparr>seqs := (seqs p)(SrcAddr env indicator \<mapsto> 0),
                 acks := (acks p)(SrcAddr env indicator \<mapsto> Seq indicator + 1),
                 id' := n\<rparr>"
proof -
  obtain p' out e where h: "handshake env p indicator = (p', out, e)"
    by (cases "handshake env p indicator")
  have "fst (handleListen env p packet handle) = p'"
    using assms h by (simp add: handleListen_def split: option.splits)
  with handshake_state [OF h] show ?thesis by simp
qed

subsection \<open>The second half of handleListen\<close>

lemma redirectInbound_fields:
  fixes env p indicator encappedIndicator packet handle
  defines "r \<equiv> fst (redirectInbound env p indicator encappedIndicator packet handle)"
  shows "portDist r = portDist p" and "seqs r = seqs p" and "acks r = acks p"
    and "port r = port (snd (distribute p (qPortDist env indicator encappedIndicator)))"
proof -
  obtain d p1 where d: "distribute p (qPortDist env indicator encappedIndicator) = (d, p1)"
    by (cases "distribute p (qPortDist env indicator encappedIndicator)")
  have f: "portDist p1 = portDist p" "seqs p1 = seqs p" "acks p1 = acks p"
    using distribute_fields [of p "qPortDist env indicator encappedIndicator"] by (simp_all add: d)
  show "portDist r = portDist p"
    by (simp add: r_def redirectInbound_def d f Let_def split: sum.splits option.splits)
  show "seqs r = seqs p"
    by (simp add: r_def redirectInbound_def d f Let_def split: sum.splits option.splits)
  show "acks r = acks p"
    by (simp add: r_def redirectInbound_def d f Let_def split: sum.splits option.splits)
  show "port r = port (snd (distribute p (qPortDist env indicator encappedIndicator)))"
    by (simp add: r_def redirectInbound_def d Let_def split: sum.splits option.splits)
qed

text \<open>The second half of \<open>handleListen\<close> once the three layers are made: the reverse
  entry is written, and what follows depends on the serializer and the driver only.\<close>

lemma redirectInbound_layers:
  assumes "setSrcPort ''create transport layer'' (TransportLayer ei)
             (fst (distribute p (qPortDist env indicator ei))) = Inr t"
    and "createNetworkLayer env (NetworkLayerType ei) (IPv4Addr (UpDev p)) (IPv6Addr (UpDev p))
           (DstIP ei) (Id' ei) (TTL ei - 1) t = Inr nl"
    and "createLinkLayer env p (if IsLoop (UpDev p) then LayerTypeLoopback else LayerTypeEthernet) nl
           = Inr ll"
  shows "redirectInbound env p indicator ei packet handle =
           ((snd (distribute p (qPortDist env indicator ei)))
              \<lparr>nat' := (nat' p)(qNAT env p ei \<mapsto>
                 \<lparr>ps_SrcIP = IPString env (SrcIP indicator), ps_SrcPort = SrcPort indicator,
                  ps_EncappedSrcIP = IPString env (SrcIP ei), ps_EncappedSrcPort = SrcPort ei,
                  ps_Handle = handle\<rparr>)\<rparr>,
            case serialize env ll nl t (Payload ei) of
              Some err \<Rightarrow> [Println (Wrap ''handle listen'' err)]
            | None \<Rightarrow>
                [case WritePacketData env (upHandle p)
                        \<lparr>f_link = ll, f_network = nl, f_transport = t, f_payload = Payload ei\<rparr> of
                   Some err \<Rightarrow> Println (Wrap ''handle listen'' (Wrap ''write'' err))
                 | None \<Rightarrow>
                     Wrote (upHandle p)
                       \<lparr>f_link = ll, f_network = nl, f_transport = t, f_payload = Payload ei\<rparr>,
                 PrintInbound (TransportLayerType ei) (SrcAddr env ei) (DstAddr env ei)
                   (pkt_Length packet)])"
proof -
  obtain d p1 where d: "distribute p (qPortDist env indicator ei) = (d, p1)"
    by (cases "distribute p (qPortDist env indicator ei)")
  have f: "UpDev p1 = UpDev p" "GatewayDev p1 = GatewayDev p" "upHandle p1 = upHandle p"
    "nat' p1 = nat' p"
    using distribute_fields [of p "qPortDist env indicator ei"] by (simp_all add: d)
  have l: "createLinkLayer env p1 ty nl = createLinkLayer env p ty nl" for ty
    by (rule createLinkLayer_devices) (simp_all add: f)
  have q: "qNAT env p1 ei = qNAT env p ei"
    by (simp add: qNAT_def f)
  show ?thesis
    using assms
    by (simp add: redirectInbound_def d f l q Let_def qPortDist_sel
          split: option.splits)
qed

text \<open>Every frame the second half writes carries the distributed port as its source
  port.\<close>

lemma redirectInbound_frames:
  assumes "Wrote h f \<in> set (snd (redirectInbound env p indicator ei packet handle))"
  shows "frameSrcPort f = Some (fst (distribute p (qPortDist env indicator ei)))"
proof -
  obtain d p1 where d: "distribute p (qPortDist env indicator ei) = (d, p1)"
    by (cases "distribute p (qPortDist env indicator ei)")
  have s: "frameSrcPort \<lparr>f_link = ll, f_network = nl, f_transport = t, f_payload = b\<rparr> = Some d"
    if "setSrcPort ''create transport layer'' (TransportLayer ei) d = Inr t" for ll nl t b
    using that
    by (auto simp add: setSrcPort_def frameSrcPort_def split: transportLayer.splits)
  show ?thesis
    using assms
    by (auto simp add: redirectInbound_def d Let_def s split: sum.splits option.splits)
qed

subsection \<open>handleListen\<close>

lemma handleListen_data:
  assumes "parsePacket env packet = Inr indicator"
    and "\<not> SYN indicator"
    and "ApplicationLayer indicator = Some contents"
    and "parseEncappedPacket env contents = Inr ei"
  shows "handleListen env p packet handle =
           redirectInbound env
             (p\<lparr>acks := (acks p)(SrcAddr env indicator \<mapsto>
                   mapGet (acks p) (SrcAddr env indicator) + of_nat (length contents))\<rparr>)
             indicator ei packet handle"
  using assms by (simp add: handleListen_def Let_def)

lemma handleListen_not_syn:
  assumes "parsePacket env packet = Inr indicator" and "\<not> SYN indicator"
  shows "seqs (fst (handleListen env p packet handle)) = seqs p"
    and "acks (fst (handleListen env p packet handle)) =
           (case ApplicationLayer indicator of
              None \<Rightarrow> acks p
            | Some contents \<Rightarrow>
                (acks p)(SrcAddr env indicator \<mapsto>
                  mapGet (acks p) (SrcAddr env indicator) + of_nat (length contents)))"
  using assms
  by (simp_all add: handleListen_def Let_def redirectInbound_fields
        split: option.splits sum.splits)

text \<open>No path of \<open>handleListen\<close> writes the forward table.\<close>

lemma handleListen_portDist: "portDist (fst (handleListen env p packet handle)) = portDist p"
proof (cases "parsePacket env packet")
  case (Inl err)
  then show ?thesis by (simp add: handleListen_def)
next
  case (Inr indicator)
  show ?thesis
  proof (cases "SYN indicator")
    case True
    from handleListen_syn_state [OF Inr True, of p handle] show ?thesis by auto
  next
    case False
    with Inr show ?thesis
      by (simp add: handleListen_def Let_def redirectInbound_fields
            split: option.splits sum.splits)
  qed
qed

lemma handleListen_layers:
  assumes "parsePacket env packet = Inr indicator"
    and "\<not> SYN indicator"
    and "ApplicationLayer indicator = Some contents"
    and "parseEncappedPacket env contents = Inr ei"
    and "setSrcPort ''create transport layer'' (TransportLayer ei)
             (fst (distribute p (qPortDist env indicator ei))) = Inr t"
    and "createNetworkLayer env (NetworkLayerType ei) (IPv4Addr (UpDev p)) (IPv6Addr (UpDev p))
           (DstIP ei) (Id' ei) (TTL ei - 1) t = Inr nl"
    and "createLinkLayer env p (if IsLoop (UpDev p) then LayerTypeLoopback else LayerTypeEthernet) nl
           = Inr ll"
  shows "handleListen env p packet handle =
           ((snd (distribute p (qPortDist env indicator ei)))
              \<lparr>acks := (acks p)(SrcAddr env indicator \<mapsto>
                   mapGet (acks p) (SrcAddr env indicator) + of_nat (length contents)),
               nat' := (nat' p)(qNAT env p ei \<mapsto>
                 \<lparr>ps_SrcIP = IPString env (SrcIP indicator), ps_SrcPort = SrcPort indicator,
                  ps_EncappedSrcIP = IPString env (SrcIP ei), ps_EncappedSrcPort = SrcPort ei,
                  ps_Handle = handle\<rparr>)\<rparr>,
            case serialize env ll nl t (Payload ei) of
              Some err \<Rightarrow> [Println (Wrap ''handle listen'' err)]
            | None \<Rightarrow>
                [case WritePacketData env (upHandle p)
                        \<lparr>f_link = ll, f_network = nl, f_transport = t, f_payload = Payload ei\<rparr> of
                   Some err \<Rightarrow> Println (Wrap ''handle listen'' (Wrap ''write'' err))
                 | None \<Rightarrow>
                     Wrote (upHandle p)
                       \<lparr>f_link = ll, f_network = nl, f_transport = t, f_payload = Payload ei\<rparr>,
                 PrintInbound (TransportLayerType ei) (SrcAddr env ei) (DstAddr env ei)
                   (pkt_Length packet)])"
proof -
  let ?a = "(acks p)(SrcAddr env indicator \<mapsto>
              mapGet (acks p) (SrcAddr env indicator) + of_nat (length contents))"
  have l: "createLinkLayer env (p\<lparr>acks := ?a\<rparr>) ty nl = createLinkLayer env p ty nl" for ty
    by (rule createLinkLayer_devices) simp_all
  have q: "qNAT env (p\<lparr>acks := ?a\<rparr>) ei = qNAT env p ei"
    by (simp add: qNAT_def)
  have "redirectInbound env (p\<lparr>acks := ?a\<rparr>) indicator ei packet handle =
          ((snd (distribute (p\<lparr>acks := ?a\<rparr>) (qPortDist env indicator ei)))
              \<lparr>nat' := (nat' (p\<lparr>acks := ?a\<rparr>))(qNAT env (p\<lparr>acks := ?a\<rparr>) ei \<mapsto>
                 \<lparr>ps_SrcIP = IPString env (SrcIP indicator), ps_SrcPort = SrcPort indicator,
                  ps_EncappedSrcIP = IPString env (SrcIP ei), ps_EncappedSrcPort = SrcPort ei,
                  ps_Handle = handle\<rparr>)\<rparr>,
            case serialize env ll nl t (Payload ei) of
              Some err \<Rightarrow> [Println (Wrap ''handle listen'' err)]
            | None \<Rightarrow>
                [case WritePacketData env (upHandle (p\<lparr>acks := ?a\<rparr>))
                        \<lparr>f_link = ll, f_network = nl, f_transport = t, f_payload = Payload ei\<rparr> of
                   Some err \<Rightarrow> Println (Wrap ''handle listen'' (Wrap ''write'' err))
                 | None \<Rightarrow>
                     Wrote (upHandle (p\<lparr>acks := ?a\<rparr>))
                       \<lparr>f_link = ll, f_network = nl, f_transport = t, f_payload = Payload ei\<rparr>,
                 PrintInbound (TransportLayerType ei) (SrcAddr env ei) (DstAddr env ei)
                   (pkt_Length packet)])"
    by (rule redirectInbound_layers) (simp_all add: assms distribute_acks l)
  then show ?thesis
    by (simp add: handleListen_data [OF assms(1-4)] distribute_acks q split: option.splits)
qed

subsection \<open>handleUpstream\<close>

text \<open>The switch on the link layer kind is entered with the zero value, so the second half
  of \<open>handleUpstream\<close> returns before it serializes: no path changes the server or
  writes a frame.\<close>

lemma redirectOutbound_state: "fst (redirectOutbound env p indicator ps packet) = p"
  by (simp add: redirectOutbound_def createLinkLayer_Zero Let_def
        split: sum.splits prod.splits)

lemma redirectOutbound_no_write:
  "Wrote h f \<notin> set (snd (redirectOutbound env p indicator ps packet))"
  by (auto simp add: redirectOutbound_def createLinkLayer_Zero Let_def
        split: sum.splits prod.splits networkLayer.splits)

lemma handleUpstream_state: "fst (handleUpstream env p packet) = p"
  by (simp add: handleUpstream_def redirectOutbound_state Let_def
        split: sum.splits option.splits)

lemma handleUpstream_no_write: "Wrote h f \<notin> set (snd (handleUpstream env p packet))"
  by (simp add: handleUpstream_def redirectOutbound_no_write Let_def
        split: sum.splits option.splits)



subsection \<open>Sequences of data packets\<close>

lemma handlePackets_Cons:
  "fst (handlePackets env p (c # cs)) = fst (handlePackets env (fst (handlePacket env p c)) cs)"
  "snd (handlePackets env p (c # cs)) =
     snd (handlePacket env p c) @ snd (handlePackets env (fst (handlePacket env p c)) cs)"
  by (simp_all add: split_beta)

declare handlePackets.simps(2) [simp del]

lemma dataPacketD:
  assumes "dataPacket env packet"
  shows "\<exists>indicator contents ei.
           parsePacket env packet = Inr indicator \<and> \<not> SYN indicator \<and>
           ApplicationLayer indicator = Some contents \<and>
           parseEncappedPacket env contents = Inr ei"
proof -
  obtain indicator where 1: "parsePacket env packet = Inr indicator"
    using assms by (cases "parsePacket env packet") (simp_all add: dataPacket_def)
  have 2: "\<not> SYN indicator"
    using assms 1 by (simp add: dataPacket_def)
  obtain contents where 3: "ApplicationLayer indicator = Some contents"
    using assms 1 by (cases "ApplicationLayer indicator") (simp_all add: dataPacket_def)
  obtain ei where 4: "parseEncappedPacket env contents = Inr ei"
    using assms 1 3 by (cases "parseEncappedPacket env contents") (simp_all add: dataPacket_def)
  from 1 2 3 4 show ?thesis by blast
qed

lemma handleListen_port_data:
  assumes "dataPacket env packet" and "portDist p = Map.empty"
  shows "port (fst (handleListen env p packet handle)) = port p + 1"
    and "allocated env p packet = Some (49152 + port p mod 16384)"
proof -
  obtain indicator contents ei where
    i: "parsePacket env packet = Inr indicator" "\<not> SYN indicator"
       "ApplicationLayer indicator = Some contents" "parseEncappedPacket env contents = Inr ei"
    using dataPacketD [OF assms(1)] by blast
  let ?a = "(acks p)(SrcAddr env indicator \<mapsto>
              mapGet (acks p) (SrcAddr env indicator) + of_nat (length contents))"
  have "distribute (p\<lparr>acks := ?a\<rparr>) (qPortDist env indicator ei) =
          (49152 + port p mod 16384, p\<lparr>acks := ?a, port := port p + 1\<rparr>)"
    using assms(2) by (simp add: distribute_miss)
  then show "port (fst (handleListen env p packet handle)) = port p + 1"
    using i by (simp add: handleListen_def Let_def redirectInbound_fields)
  show "allocated env p packet = Some (49152 + port p mod 16384)"
    using i assms(2) by (simp add: allocated_def distribute_miss)
qed

lemma handlePackets_port:
  assumes "\<forall>c\<in>set cs. dataCapture env c" and "portDist p = Map.empty"
  shows "port (fst (handlePackets env p cs)) = port p + of_nat (length cs)
       \<and> portDist (fst (handlePackets env p cs)) = Map.empty"
  using assms
proof (induction cs arbitrary: p)
  case Nil
  then show ?case by simp
next
  case (Cons c cs)
  from Cons.prems(1) obtain packet handle where c: "c = Listen packet handle"
    and d: "dataPacket env packet"
    by (cases c) (simp_all add: dataCapture_def)
  let ?p1 = "fst (handleListen env p packet handle)"
  have p1: "port ?p1 = port p + 1" "portDist ?p1 = Map.empty"
    using handleListen_port_data(1) [OF d Cons.prems(2)] Cons.prems(2)
    by (simp_all add: handleListen_portDist)
  have "port (fst (handlePackets env ?p1 cs)) = port ?p1 + of_nat (length cs)
       \<and> portDist (fst (handlePackets env ?p1 cs)) = Map.empty"
    using Cons.IH [of ?p1] Cons.prems(1) p1(2) by simp
  then show ?case
    by (simp add: handlePackets_Cons c handlePacket_def p1 add.assoc)
qed

text \<open>\<open>49152 + cursor mod 16384\<close> on \<open>uint16\<close>, read as a number, when the cursor has
  counted \<open>i\<close> packets from 0: the wrap of the cursor at \<open>2 ^ 16\<close> does not show,
  since 16384 divides \<open>2 ^ 16\<close>.\<close>

lemma unat_distPort_word: "unat (49152 + (w :: u16) mod 16384) = 49152 + unat w mod 16384"
proof -
  have m: "unat (w mod 16384) = unat w mod 16384"
    by (simp add: unat_mod_distrib)
  have lt: "unat (49152 :: u16) + unat (w mod 16384) < 2 ^ LENGTH(16)"
    by (simp add: m)
  from unat_add_lem [THEN iffD1, OF lt] show ?thesis
    by (simp add: m)
qed

lemma unat_distPort: "unat (49152 + (of_nat i :: u16) mod 16384) = 49152 + i mod 16384"
proof -
  have "(i mod 65536) mod 16384 = i mod 16384"
    by (rule mod_mod_cancel) simp
  then show ?thesis
    by (simp add: unat_distPort_word unat_of_nat)
qed

lemma distPort_range: "49152 \<le> unat (distPort p) \<and> unat (distPort p) \<le> 65535"
proof -
  have "unat (port p) mod 16384 < 16384" by simp
  then show ?thesis
    unfolding distPort_def unat_distPort_word by linarith
qed

lemma handleListen_frames:
  assumes "dataPacket env packet"
    and "Wrote h f \<in> set (snd (handleListen env p packet handle))"
  shows "frameSrcPort f = allocated env p packet"
proof -
  obtain indicator contents ei where
    i: "parsePacket env packet = Inr indicator" "\<not> SYN indicator"
       "ApplicationLayer indicator = Some contents" "parseEncappedPacket env contents = Inr ei"
    using dataPacketD [OF assms(1)] by blast
  from assms(2) i show ?thesis
    by (simp add: handleListen_data [OF i] allocated_def distribute_acks)
       (drule redirectInbound_frames, simp add: distribute_acks)
qed



subsection \<open>The scenarios, step by step\<close>

lemma udp4_simps [simp]:
  "NetworkLayerType (udp4 src sport dst dport ident ttl body) = LayerTypeIPv4"
  "TransportLayerType (udp4 src sport dst dport ident ttl body) = LayerTypeUDP"
  "TransportLayer (udp4 src sport dst dport ident ttl body)
     = UDP \<lparr>udp_SrcPort = sport, udp_DstPort = dport\<rparr>"
  "NetworkLayer (udp4 src sport dst dport ident ttl body)
     = IPv4 \<lparr>ip4_SrcIP = src, ip4_DstIP = dst, ip4_Id = ident, ip4_TTL = ttl\<rparr>"
  "SrcIP (udp4 src sport dst dport ident ttl body) = src"
  "SrcPort (udp4 src sport dst dport ident ttl body) = sport"
  "DstIP (udp4 src sport dst dport ident ttl body) = dst"
  "DstPort (udp4 src sport dst dport ident ttl body) = dport"
  "Id' (udp4 src sport dst dport ident ttl body) = ident"
  "TTL (udp4 src sport dst dport ident ttl body) = ttl"
  "SYN (udp4 src sport dst dport ident ttl body) = False"
  "Payload (udp4 src sport dst dport ident ttl body) = Some body"
  by (simp_all add: udp4_def NetworkLayerType_def TransportLayerType_def Payload_def)

lemma addr_simps [simp]:
  "SrcAddr sc_env (udp4 ip_client 55555 dst dport ident ttl body) = ''10.0.0.2:55555''"
  "SrcAddr sc_env (udp4 ip_client 55556 dst dport ident ttl body) = ''10.0.0.2:55556''"
  "SrcAddr sc_env (udp4 ip_client 55557 dst dport ident ttl body) = ''10.0.0.2:55557''"
  "DstAddr sc_env (udp4 src sport ip_dns1 53 ident ttl body) = ''8.8.8.8:53''"
  "DstAddr sc_env (udp4 src sport ip_dns2 53 ident ttl body) = ''1.1.1.1:53''"
  by (simp_all add: SrcAddr_def DstAddr_def)

lemma udp6_simps [simp]:
  "NetworkLayerType (udp6 src sport dst dport hops body) = LayerTypeIPv6"
  "TransportLayerType (udp6 src sport dst dport hops body) = LayerTypeUDP"
  "TransportLayer (udp6 src sport dst dport hops body)
     = UDP \<lparr>udp_SrcPort = sport, udp_DstPort = dport\<rparr>"
  "SrcIP (udp6 src sport dst dport hops body) = src"
  "SrcPort (udp6 src sport dst dport hops body) = sport"
  "DstIP (udp6 src sport dst dport hops body) = dst"
  "DstPort (udp6 src sport dst dport hops body) = dport"
  "Id' (udp6 src sport dst dport hops body) = 0"
  "TTL (udp6 src sport dst dport hops body) = hops"
  "Payload (udp6 src sport dst dport hops body) = Some body"
  by (simp_all add: udp6_def NetworkLayerType_def TransportLayerType_def Payload_def)

lemma addr6_simps [simp]:
  "SrcAddr sc_env (udp6 ip_client6 55558 dst dport hops body) = ''2001:db8::2:55558''"
  "DstAddr sc_env (udp6 src sport ip_dns6 53 hops body) = ''2001:4860:4860::8888:53''"
  by (simp_all add: SrcAddr_def DstAddr_def)

lemma sc_syn_step:
  "handleListen sc_env sc_server pkt_syn listen1 =
     (sc_server1, [Wrote 0 frame_synack, PrintConnect ip_client 40000])"
  by (simp add: handleListen_def handshake_def Let_def createNetworkLayer_def
        createLinkLayer_def createTCPLayerSYNACK_def mapGet_def sc_server1_def frame_synack_def
        eth_up_def)

lemma sc_server1_simps [simp]:
  "ListenPort sc_server1 = 8080" "UpDev sc_server1 = sc_updev"
  "GatewayDev sc_server1 = sc_gateway" "upHandle sc_server1 = 0"
  "seqs sc_server1 = [''10.0.0.2:40000'' \<mapsto> 0]"
  "acks sc_server1 = [''10.0.0.2:40000'' \<mapsto> 43]"
  "id' sc_server1 = 1" "port sc_server1 = 0" "portDist sc_server1 = Map.empty"
  "nat' sc_server1 = Map.empty"
  by (simp_all add: sc_server1_def)

lemma sc_server2_simps [simp]:
  "ListenPort sc_server2 = 8080" "UpDev sc_server2 = sc_updev"
  "GatewayDev sc_server2 = sc_gateway" "upHandle sc_server2 = 0"
  "seqs sc_server2 = [''10.0.0.2:40000'' \<mapsto> 0]"
  "acks sc_server2 = [''10.0.0.2:40000'' \<mapsto> 83]"
  "id' sc_server2 = 1" "port sc_server2 = 1" "portDist sc_server2 = Map.empty"
  "nat' sc_server2 = [key1 \<mapsto> entry1]"
  by (simp_all add: sc_server2_def)

lemma sc_data1_step:
  "handleListen sc_env sc_server1 pkt_data1 listen1 =
     (sc_server2,
      [Wrote 0 (frame_udp 49152 ip_dns1 7 63),
       PrintInbound LayerTypeUDP ''10.0.0.2:55555'' ''8.8.8.8:53'' 94])"
  by (subst handleListen_layers [of sc_env pkt_data1 "carrier 43 False (Some inner1)" inner1
          "udp4 ip_client 55555 ip_dns1 53 7 64 body12" sc_server1
          "UDP \<lparr>udp_SrcPort = 49152, udp_DstPort = 53\<rparr>"
          "IPv4 \<lparr>ip4_SrcIP = ip_up4, ip4_DstIP = ip_dns1, ip4_Id = 7, ip4_TTL = 63\<rparr>"
          eth_up])
     (simp_all add: distribute_miss createNetworkLayer_def createLinkLayer_def qNAT_def
        mapGet_def eth_up_def sc_server2_def frame_udp_def key1_def entry1_def)

lemma sc_data6_step:
  "handleListen sc_env sc_server pkt_data6 listen1 =
     (sc_server
        \<lparr>acks := [''10.0.0.2:40000'' \<mapsto> 60], port := 1,
         nat' := [\<lparr>q_SrcIP = ''198.51.100.1'', q_SrcPort = 55558,
                   q_DstIP = ''2001:4860:4860::8888'', q_DstPort = 53,
                   q_Protocol = LayerTypeUDP\<rparr> \<mapsto>
                  \<lparr>ps_SrcIP = ''10.0.0.2'', ps_SrcPort = 40000,
                   ps_EncappedSrcIP = ''2001:db8::2'', ps_EncappedSrcPort = 55558,
                   ps_Handle = listen1\<rparr>]\<rparr>,
      [Wrote 0
         \<lparr>f_link = eth_up,
          f_network = IPv6 \<lparr>ip6_SrcIP = ip_up6, ip6_DstIP = ip_dns6, ip6_HopLimit = 64\<rparr>,
          f_transport = UDP \<lparr>udp_SrcPort = 49152, udp_DstPort = 53\<rparr>,
          f_payload = Some body12\<rparr>,
       PrintInbound LayerTypeUDP ''2001:db8::2:55558'' ''2001:4860:4860::8888:53'' 114])"
  by (subst handleListen_layers [of sc_env pkt_data6 "carrier 43 False (Some inner6)" inner6
          "udp6 ip_client6 55558 ip_dns6 53 64 body12" sc_server
          "UDP \<lparr>udp_SrcPort = 49152, udp_DstPort = 53\<rparr>"
          "IPv6 \<lparr>ip6_SrcIP = ip_up6, ip6_DstIP = ip_dns6, ip6_HopLimit = 64\<rparr>"
          eth_up])
     (simp_all add: distribute_miss createNetworkLayer_def createLinkLayer_def qNAT_def mapGet_def
        eth_up_def)

section \<open>The claims\<close>

text \<open>
  Claim C1. For every upstream frame whose reverse-NAT lookup succeeds, the egress
  handler builds the carrier link layer by the same rule as the ingress path (loopback if
  the upstream device is loopback, Ethernet otherwise), serializes the frame, and writes
  it to the handle stored in the NAT entry.

  The code does not do this. \<open>handleUpstream\<close> never assigns \<open>newLinkLayerType\<close>, so
  whatever the environment, the state and the packet, it writes no frame and leaves the
  server as it was (the sequence number and the IPv4 id are not advanced either). In the
  scenario, after the SYN and the first data segment the reverse table holds \<open>entry1\<close>
  under \<open>key1\<close>; a reply from 8.8.8.8:53 to 198.51.100.1:55555 finds it, and the handler
  prints "create link layer: type ... not support" for the zero kind and returns.
\<close>

theorem handleUpstream_link_layer_unset:
  "Wrote h f \<notin> set (snd (handleUpstream env p packet))
   \<and> fst (handleUpstream env p packet) = p
   \<and> fst (handlePackets sc_env sc_server [Listen pkt_syn listen1, Listen pkt_data1 listen1])
       = sc_server2
   \<and> nat' sc_server2 (qUpstream sc_env (udp4 ip_dns1 53 ip_up4 55555 11 57 (replicate 30 0)))
       = Some entry1
   \<and> handleUpstream sc_env sc_server2 pkt_reply55555 =
       (sc_server2,
        [Println (Wrap ''handle upstream''
           (Wrap ''create link layer'' (TypeNotSupport LayerTypeZero)))])"
proof -
  have k: "qUpstream sc_env (udp4 ip_dns1 53 ip_up4 55555 11 57 (replicate 30 0)) = key1"
    by (simp add: qUpstream_def key1_def)
  have r: "handleUpstream sc_env sc_server2 pkt_reply55555 =
       (sc_server2,
        [Println (Wrap ''handle upstream''
           (Wrap ''create link layer'' (TypeNotSupport LayerTypeZero)))])"
    by (simp add: handleUpstream_def k redirectOutbound_def Let_def createLinkLayer_Zero
          createNetworkLayer_def)
  have s: "fst (handlePackets sc_env sc_server [Listen pkt_syn listen1, Listen pkt_data1 listen1])
       = sc_server2"
    by (simp add: handlePackets_Cons handlePacket_def sc_syn_step sc_data1_step)
  show ?thesis
    by (simp add: handleUpstream_no_write handleUpstream_state s k r)
qed

text \<open>
  Claim C2. For every inner flow key \<open>q\<close> observed by the ingress handler, after the
  handler finishes processing that segment, the forward table \<open>portDist[q]\<close> contains an
  entry, and its value lies in the range 49152 to 65535.

  The code does not do this. \<open>handleListen\<close> reads \<open>portDist\<close> and never writes it: on
  every input the table after the call is the table before, while the port that
  \<open>distPort\<close> computes is always in the range 49152 to 65535. In the scenario the first
  data segment carries the flow \<open>flow1\<close>; after it is handled \<open>portDist\<close> has no entry for
  \<open>flow1\<close>, and a second segment of the same flow is given port 49153 where the first was
  given 49152.
\<close>

theorem forward_table_never_written:
  "portDist (fst (handleListen env p packet handle)) = portDist p
   \<and> 49152 \<le> unat (distPort p) \<and> unat (distPort p) \<le> 65535
   \<and> qPortDist sc_env (carrier 43 False (Some inner1))
        (udp4 ip_client 55555 ip_dns1 53 7 64 body12) = flow1
   \<and> portDist (fst (handleListen sc_env sc_server1 pkt_data1 listen1)) flow1 = None
   \<and> allocated sc_env sc_server1 pkt_data1 = Some 49152
   \<and> allocated sc_env (fst (handleListen sc_env sc_server1 pkt_data1 listen1)) pkt_data1
       = Some 49153"
proof -
  have d: "dataPacket sc_env pkt_data1"
    by (simp add: dataPacket_def)
  have a1: "allocated sc_env sc_server1 pkt_data1 = Some 49152"
    using handleListen_port_data(2) [OF d, of sc_server1] by simp
  have a2: "allocated sc_env sc_server2 pkt_data1 = Some 49153"
    using handleListen_port_data(2) [OF d, of sc_server2] by simp
  show ?thesis
    using distPort_range [of p]
    by (simp add: handleListen_portDist a1 a2 sc_data1_step qPortDist_def flow1_def)
qed

text \<open>
  Claim C3. In every state reachable by any sequence of ingress and egress processing
  steps, every entry of the reverse NAT table has a key of the form
  \<open>(server_upstream_ip, allocated_port, inner_dst_ip, inner_dst_port, inner_protocol)\<close>
  such that a forward port-allocation entry exists whose allocated port equals the
  \<open>src_port\<close> field of that NAT key; the two tables are inserted together and never
  diverge.

  The code does not do this. After the SYN and the first data segment of the scenario the
  server is \<open>sc_server2\<close>: the reverse table holds one entry, its key carries the source
  port 55555 the inner packet arrived with, while the forwarded frame left with the
  distributed port 49152, and the forward table is empty. The reply of scenario 3,
  addressed to 198.51.100.1:49152, therefore finds no reverse entry.
\<close>

theorem reverse_entry_without_forward_entry:
  "handlePackets sc_env sc_server [Listen pkt_syn listen1, Listen pkt_data1 listen1] =
     (sc_server2,
      [Wrote 0 frame_synack, PrintConnect ip_client 40000,
       Wrote 0 (frame_udp 49152 ip_dns1 7 63),
       PrintInbound LayerTypeUDP ''10.0.0.2:55555'' ''8.8.8.8:53'' 94])
   \<and> nat' sc_server2 key1 = Some entry1
   \<and> q_SrcPort key1 = 55555
   \<and> portDist sc_server2 = Map.empty
   \<and> handleUpstream sc_env sc_server2 pkt_reply = (sc_server2, [])"
proof -
  have q: "qUpstream sc_env (udp4 ip_dns1 53 ip_up4 49152 11 57 (replicate 30 0)) =
             \<lparr>q_SrcIP = ''198.51.100.1'', q_SrcPort = 49152, q_DstIP = ''8.8.8.8'',
              q_DstPort = 53, q_Protocol = LayerTypeUDP\<rparr>"
    by (simp add: qUpstream_def)
  have miss: "handleUpstream sc_env sc_server2 pkt_reply = (sc_server2, [])"
    by (simp add: handleUpstream_def q key1_def)
  have run: "handlePackets sc_env sc_server [Listen pkt_syn listen1, Listen pkt_data1 listen1] =
     (sc_server2,
      [Wrote 0 frame_synack, PrintConnect ip_client 40000,
       Wrote 0 (frame_udp 49152 ip_dns1 7 63),
       PrintInbound LayerTypeUDP ''10.0.0.2:55555'' ''8.8.8.8:53'' 94])"
    by (simp add: prod_eq_iff handlePackets_Cons handlePacket_def sc_syn_step sc_data1_step)
  show ?thesis
    by (simp add: run miss key1_def)
qed

text \<open>
  Claim C4. For every carrier frame with the SYN flag set, arriving from client ip:port
  with TCP sequence number \<open>s\<close>, the ingress handler sets \<open>seqs[client] = 0\<close> and
  \<open>acks[client] = s + 1\<close> and emits on the upstream handle a SYN+ACK carrier TCP segment
  whose source port is the listen port, destination port is the client's port, sequence
  number is 0, and acknowledgement number is \<open>s + 1\<close>.

  For a frame that parses with the SYN flag: the two session entries are set whatever
  happens next; every frame the handler writes goes to the upstream handle, has no
  payload and has as transport layer the SYN+ACK segment built from the listen port, the
  client's port, 0 and \<open>s + 1\<close>; and when the network layer, the link layer, the
  serialization and the write succeed, exactly that frame is written, followed by the
  "Connect from client" line.
\<close>

theorem handleListen_syn:
  assumes "parsePacket env packet = Inr indicator" and "SYN indicator"
  shows "seqs (fst (handleListen env p packet handle)) (SrcAddr env indicator) = Some 0
       \<and> acks (fst (handleListen env p packet handle)) (SrcAddr env indicator)
           = Some (Seq indicator + 1)
       \<and> (\<forall>h f. Wrote h f \<in> set (snd (handleListen env p packet handle)) \<longrightarrow>
             h = upHandle p \<and> f_payload f = None \<and>
             f_transport f =
               createTCPLayerSYNACK (ListenPort p) (SrcPort indicator) 0 (Seq indicator + 1))
       \<and> (\<forall>nl ll.
             createNetworkLayer env
               (if To4 (DstIP indicator) \<noteq> [] then LayerTypeIPv4 else LayerTypeIPv6)
               (DstIP indicator) (DstIP indicator) (SrcIP indicator) (id' p) 128
               (createTCPLayerSYNACK (ListenPort p) (SrcPort indicator) 0 (Seq indicator + 1))
               = Inr nl \<longrightarrow>
             createLinkLayer env p
               (if IsLoop (UpDev p) then LayerTypeLoopback else LayerTypeEthernet) nl = Inr ll \<longrightarrow>
             serialize env ll nl
               (createTCPLayerSYNACK (ListenPort p) (SrcPort indicator) 0 (Seq indicator + 1))
               None = None \<longrightarrow>
             WritePacketData env (upHandle p)
               \<lparr>f_link = ll, f_network = nl,
                f_transport =
                  createTCPLayerSYNACK (ListenPort p) (SrcPort indicator) 0 (Seq indicator + 1),
                f_payload = None\<rparr> = None \<longrightarrow>
             snd (handleListen env p packet handle) =
               [Wrote (upHandle p)
                  \<lparr>f_link = ll, f_network = nl,
                   f_transport =
                     createTCPLayerSYNACK (ListenPort p) (SrcPort indicator) 0
                       (Seq indicator + 1),
                   f_payload = None\<rparr>,
                PrintConnect (SrcIP indicator) (SrcPort indicator)])"
proof -
  let ?t = "createTCPLayerSYNACK (ListenPort p) (SrcPort indicator) 0 (Seq indicator + 1)"
  obtain p' out e where h: "handshake env p indicator = (p', out, e)"
    by (cases "handshake env p indicator")
  have r: "handleListen env p packet handle =
             (p', out @ [case e of Some err \<Rightarrow> Println (Wrap ''handle listen'' err)
                                | None \<Rightarrow> PrintConnect (SrcIP indicator) (SrcPort indicator)])"
    using assms h by (simp add: handleListen_def split: option.splits)
  obtain n where p': "p' = p\<lparr>seqs := (seqs p)(SrcAddr env indicator \<mapsto> 0),
                               acks := (acks p)(SrcAddr env indicator \<mapsto> Seq indicator + 1),
                               id' := n\<rparr>"
    using handshake_state [OF h] by blast
  have s: "seqs (fst (handleListen env p packet handle)) (SrcAddr env indicator) = Some 0"
    and a: "acks (fst (handleListen env p packet handle)) (SrcAddr env indicator)
               = Some (Seq indicator + 1)"
    by (simp_all add: r p')
  have w: "h' = upHandle p \<and> f_payload f = None \<and> f_transport f = ?t"
    if "Wrote h' f \<in> set (snd (handleListen env p packet handle))" for h' f
  proof -
    from that have "Wrote h' f \<in> set out"
      by (auto simp add: r split: option.splits)
    with handshake_writes [OF h] show ?thesis by blast
  qed
  have ok: "snd (handleListen env p packet handle) =
          [Wrote (upHandle p)
             \<lparr>f_link = ll, f_network = nl, f_transport = ?t, f_payload = None\<rparr>,
           PrintConnect (SrcIP indicator) (SrcPort indicator)]"
    if "createNetworkLayer env (if To4 (DstIP indicator) \<noteq> [] then LayerTypeIPv4 else LayerTypeIPv6)
             (DstIP indicator) (DstIP indicator) (SrcIP indicator) (id' p) 128 ?t = Inr nl"
    and "createLinkLayer env p (if IsLoop (UpDev p) then LayerTypeLoopback else LayerTypeEthernet) nl
           = Inr ll"
    and "serialize env ll nl ?t None = None"
    and "WritePacketData env (upHandle p)
           \<lparr>f_link = ll, f_network = nl, f_transport = ?t, f_payload = None\<rparr> = None"
    for nl ll
    using handshake_ok [OF that] h by (simp add: r)
  show ?thesis
    using s a w ok by blast
qed

theorem handleListen_syn_witness:
  "seqs (fst (handleListen sc_env sc_server pkt_syn listen1)) ''10.0.0.2:40000'' = Some 0
   \<and> acks (fst (handleListen sc_env sc_server pkt_syn listen1)) ''10.0.0.2:40000'' = Some 43
   \<and> snd (handleListen sc_env sc_server pkt_syn listen1) =
       [Wrote 0
          \<lparr>f_link = Ethernet \<lparr>eth_SrcMAC = [2, 0, 0, 0, 0, 1], eth_DstMAC = [2, 0, 0, 0, 0, 254]\<rparr>,
           f_network = IPv4 \<lparr>ip4_SrcIP = ip_listen, ip4_DstIP = ip_client, ip4_Id = 0,
                             ip4_TTL = 128\<rparr>,
           f_transport = TCP \<lparr>tcp_SrcPort = 8080, tcp_DstPort = 40000, tcp_Seq = 0,
                               tcp_Ack = 43, tcp_SYN = True, tcp_ACK = True\<rparr>,
           f_payload = None\<rparr>,
        PrintConnect ip_client 40000]"
  using handleListen_syn [of sc_env pkt_syn "carrier 42 True None" sc_server listen1]
  by (simp add: createTCPLayerSYNACK_def createNetworkLayer_def createLinkLayer_def)

text \<open>
  Claim C5. For every client key, the per-client seq and ack counters are monotonically
  non-decreasing over the whole process lifetime for every sequence of processed frames,
  and a client's seq/ack entries are first initialized when that client's SYN is
  received, never before.

  Amended: for a frame from client \<open>c\<close> that parses, a SYN sets \<open>seqs[c] = 0\<close> and
  \<open>acks[c] = s + 1\<close> whatever the values before, so a repeated SYN can lower them. A
  frame that is not a SYN leaves all of \<open>seqs\<close> as it is and, when it has a payload, sets
  \<open>acks[c]\<close> to \<open>acks[c]\<close> plus the payload length in 32-bit arithmetic, an absent entry
  read as 0: the ack counter does not decrease unless that addition wraps, and the first
  data segment of a client whose SYN was never seen creates its ack entry. No ingress
  frame changes the entries of another client, and the egress handler never changes
  \<open>acks\<close>.
\<close>

theorem session_counters_step:
  assumes "parsePacket env packet = Inr indicator"
  shows "(SYN indicator \<longrightarrow>
            seqs (fst (handleListen env p packet handle)) (SrcAddr env indicator) = Some 0 \<and>
            acks (fst (handleListen env p packet handle)) (SrcAddr env indicator)
              = Some (Seq indicator + 1))
       \<and> (\<not> SYN indicator \<longrightarrow>
            seqs (fst (handleListen env p packet handle)) = seqs p \<and>
            acks (fst (handleListen env p packet handle)) (SrcAddr env indicator) =
              (case ApplicationLayer indicator of
                 None \<Rightarrow> acks p (SrcAddr env indicator)
               | Some contents \<Rightarrow>
                   Some (mapGet (acks p) (SrcAddr env indicator) + of_nat (length contents))))
       \<and> (\<forall>contents. \<not> SYN indicator \<longrightarrow> ApplicationLayer indicator = Some contents \<longrightarrow>
            unat (mapGet (acks p) (SrcAddr env indicator)) + length contents < 2 ^ 32 \<longrightarrow>
            unat (mapGet (acks (fst (handleListen env p packet handle))) (SrcAddr env indicator))
              = unat (mapGet (acks p) (SrcAddr env indicator)) + length contents)
       \<and> (\<forall>k. k \<noteq> SrcAddr env indicator \<longrightarrow>
            seqs (fst (handleListen env p packet handle)) k = seqs p k \<and>
            acks (fst (handleListen env p packet handle)) k = acks p k)
       \<and> acks (fst (handleUpstream env p packet')) = acks p"
proof -
  let ?H = "fst (handleListen env p packet handle)"
  let ?c = "SrcAddr env indicator"
  have syn: "seqs ?H ?c = Some 0 \<and> acks ?H ?c = Some (Seq indicator + 1)" if "SYN indicator"
    using handleListen_syn_state [OF assms that, of p handle] by auto
  have other_syn: "seqs ?H k = seqs p k \<and> acks ?H k = acks p k"
    if "SYN indicator" "k \<noteq> ?c" for k
    using handleListen_syn_state [OF assms that(1), of p handle] that(2) by auto
  have data: "seqs ?H = seqs p"
    "acks ?H = (case ApplicationLayer indicator of
              None \<Rightarrow> acks p
            | Some contents \<Rightarrow>
                (acks p)(?c \<mapsto> mapGet (acks p) ?c + of_nat (length contents)))"
    if "\<not> SYN indicator"
    using handleListen_not_syn [OF assms that] by simp_all
  have data_c: "acks ?H ?c =
              (case ApplicationLayer indicator of
                 None \<Rightarrow> acks p ?c
               | Some contents \<Rightarrow> Some (mapGet (acks p) ?c + of_nat (length contents)))"
    if "\<not> SYN indicator"
    by (simp add: data(2) [OF that] split: option.splits)
  have other_data: "seqs ?H k = seqs p k \<and> acks ?H k = acks p k"
    if "\<not> SYN indicator" "k \<noteq> ?c" for k
    using that(2) by (simp add: data [OF that(1)] split: option.splits)
  have nowrap: "unat (mapGet (acks ?H) ?c) = unat (mapGet (acks p) ?c) + length contents"
    if "\<not> SYN indicator" "ApplicationLayer indicator = Some contents"
      "unat (mapGet (acks p) ?c) + length contents < 2 ^ 32" for contents
  proof -
    have l: "length contents < 2 ^ 32" using that(3) by simp
    have "mapGet (acks ?H) ?c = mapGet (acks p) ?c + of_nat (length contents)"
      by (simp add: data(2) [OF that(1)] that(2) mapGet_def)
    moreover have "unat (of_nat (length contents) :: u32) = length contents"
      using l by (simp add: unat_of_nat)
    ultimately show ?thesis
      using that(3) by (simp add: unat_word_ariths)
  qed
  have up: "acks (fst (handleUpstream env p packet')) = acks p"
    by (simp add: handleUpstream_state)
  show ?thesis
    using syn data(1) data_c nowrap other_syn other_data up by blast
qed

text \<open>The theorem on the scenario: the SYN with sequence number 42, then the first data
  segment, whose payload has 40 bytes.\<close>

theorem session_counters_step_witness:
  "seqs (fst (handleListen sc_env sc_server pkt_syn listen1)) ''10.0.0.2:40000'' = Some 0
   \<and> acks (fst (handleListen sc_env sc_server pkt_syn listen1)) ''10.0.0.2:40000'' = Some 43
   \<and> seqs (fst (handleListen sc_env sc_server1 pkt_data1 listen1)) = seqs sc_server1
   \<and> acks (fst (handleListen sc_env sc_server1 pkt_data1 listen1)) ''10.0.0.2:40000'' = Some 83
   \<and> unat (mapGet (acks (fst (handleListen sc_env sc_server1 pkt_data1 listen1)))
              ''10.0.0.2:40000'') = 83
   \<and> acks (fst (handleListen sc_env sc_server1 pkt_data1 listen1)) ''10.0.0.9:1'' = None
   \<and> acks (fst (handleUpstream sc_env sc_server1 pkt_reply)) = acks sc_server1"
  using session_counters_step [of sc_env pkt_syn "carrier 42 True None" sc_server listen1 pkt_reply]
    session_counters_step [of sc_env pkt_data1 "carrier 43 False (Some inner1)" sc_server1 listen1
      pkt_reply]
  by (simp add: mapGet_def)

text \<open>
  The claim as stated fails twice. A second SYN of the same client, with sequence number
  5, lowers its ack counter from 43 to 6. And on a server that has seen no SYN (both
  tables empty), a data segment of 40 bytes creates the client's ack entry, with the
  value 40, and no seq entry.
\<close>

theorem session_counters_counterexample:
  "acks (fst (handleListen sc_env sc_server pkt_syn listen1)) ''10.0.0.2:40000'' = Some 43
   \<and> acks (fst (handleListen sc_env (fst (handleListen sc_env sc_server pkt_syn listen1))
                pkt_syn5 listen1)) ''10.0.0.2:40000'' = Some 6
   \<and> (6 :: u32) < 43
   \<and> seqs sc_server ''10.0.0.2:40000'' = None
   \<and> acks sc_server ''10.0.0.2:40000'' = None
   \<and> acks (fst (handleListen sc_env sc_server pkt_data1 listen1)) ''10.0.0.2:40000'' = Some 40
   \<and> seqs (fst (handleListen sc_env sc_server pkt_data1 listen1)) ''10.0.0.2:40000'' = None"
proof -
  have s5: "acks (fst (handleListen sc_env sc_server1 pkt_syn5 listen1)) ''10.0.0.2:40000'' = Some 6"
    using handleListen_syn_state [of sc_env pkt_syn5 "carrier 5 True None" sc_server1 listen1]
    by auto
  have d: "acks (fst (handleListen sc_env sc_server pkt_data1 listen1)) ''10.0.0.2:40000'' = Some 40"
    "seqs (fst (handleListen sc_env sc_server pkt_data1 listen1)) ''10.0.0.2:40000'' = None"
    using handleListen_not_syn [of sc_env pkt_data1 "carrier 43 False (Some inner1)" sc_server
        listen1]
    by (simp_all add: mapGet_def)
  show ?thesis
    using s5 d by (simp add: sc_syn_step)
qed

text \<open>
  Claim C6. On the ingress data path for an inner IPv4 packet, the rebuilt network layer
  decrements the inner TTL by exactly 1, and for every inner packet whose TTL decrement
  would underflow (inner TTL = 0), the packet is dropped (not emitted on the upstream
  handle).

  Amended: on the ingress data path for an inner IPv4 packet the network layer is built
  with the inner TTL minus 1 in 8-bit arithmetic, which is 255 when the inner TTL is 0 and
  one less otherwise; the handler does not test the TTL, and whatever the inner TTL the
  frame with that network layer is written to the upstream handle when the layers, the
  serialization and the write succeed.
\<close>

theorem handleListen_ipv4_ttl:
  assumes "parsePacket env packet = Inr indicator"
    and "\<not> SYN indicator"
    and "ApplicationLayer indicator = Some contents"
    and "parseEncappedPacket env contents = Inr ei"
    and "NetworkLayerType ei = LayerTypeIPv4"
    and "setSrcPort ''create transport layer'' (TransportLayer ei)
             (fst (distribute p (qPortDist env indicator ei))) = Inr t"
    and "createNetworkLayerIPv4 env (IPv4Addr (UpDev p)) (DstIP ei) (Id' ei) (TTL ei - 1) t = Inr nl"
    and "createLinkLayer env p (if IsLoop (UpDev p) then LayerTypeLoopback else LayerTypeEthernet) nl
           = Inr ll"
    and "serialize env ll nl t (Payload ei) = None"
    and "WritePacketData env (upHandle p)
           \<lparr>f_link = ll, f_network = nl, f_transport = t, f_payload = Payload ei\<rparr> = None"
  shows "snd (handleListen env p packet handle) =
           [Wrote (upHandle p)
              \<lparr>f_link = ll, f_network = nl, f_transport = t, f_payload = Payload ei\<rparr>,
            PrintInbound (TransportLayerType ei) (SrcAddr env ei) (DstAddr env ei)
              (pkt_Length packet)]
       \<and> unat (TTL ei - 1) = (if TTL ei = 0 then 255 else unat (TTL ei) - 1)"
proof -
  have n: "createNetworkLayer env (NetworkLayerType ei) (IPv4Addr (UpDev p)) (IPv6Addr (UpDev p))
           (DstIP ei) (Id' ei) (TTL ei - 1) t = Inr nl"
    using assms(5,7) by (simp add: createNetworkLayer_def)
  have "snd (handleListen env p packet handle) =
           [Wrote (upHandle p)
              \<lparr>f_link = ll, f_network = nl, f_transport = t, f_payload = Payload ei\<rparr>,
            PrintInbound (TransportLayerType ei) (SrcAddr env ei) (DstAddr env ei)
              (pkt_Length packet)]"
    by (simp add: handleListen_layers [OF assms(1-4) assms(6) n assms(8)] assms(9,10))
  moreover have "unat (TTL ei - 1) = (if TTL ei = 0 then 255 else unat (TTL ei) - 1)"
    by (simp add: unat_minus_one unsigned_minus_1_eq_mask mask_eq_exp_minus_1)
  ultimately show ?thesis by simp
qed

text \<open>The theorem on scenario 2: the inner packet has TTL 64 and leaves with TTL 63.\<close>

theorem handleListen_ipv4_ttl_witness:
  "snd (handleListen sc_env sc_server1 pkt_data1 listen1) =
     [Wrote 0 (frame_udp 49152 ip_dns1 7 63),
      PrintInbound LayerTypeUDP ''10.0.0.2:55555'' ''8.8.8.8:53'' 94]
   \<and> unat (TTL (udp4 ip_client 55555 ip_dns1 53 7 64 body12) - 1) = 63"
  using handleListen_ipv4_ttl [of sc_env pkt_data1 "carrier 43 False (Some inner1)" inner1
          "udp4 ip_client 55555 ip_dns1 53 7 64 body12" sc_server1
          "UDP \<lparr>udp_SrcPort = 49152, udp_DstPort = 53\<rparr>"
          "IPv4 \<lparr>ip4_SrcIP = ip_up4, ip4_DstIP = ip_dns1, ip4_Id = 7, ip4_TTL = 63\<rparr>"
          eth_up listen1]
  by (simp add: distribute_miss createLinkLayer_def eth_up_def frame_udp_def)

text \<open>
  The claim as stated fails for the inner packet of the scenarios that has TTL 0: it is
  not dropped, the frame is written to the upstream handle, with TTL 255.
\<close>

theorem handleListen_ttl0_counterexample:
  "parsePacket sc_env pkt_ttl0 = Inr (carrier 43 False (Some inner_ttl0))
   \<and> parseEncappedPacket sc_env inner_ttl0 = Inr (udp4 ip_client 55557 ip_dns1 53 9 0 body12)
   \<and> TTL (udp4 ip_client 55557 ip_dns1 53 9 0 body12) = 0
   \<and> snd (handleListen sc_env sc_server1 pkt_ttl0 listen1) =
       [Wrote 0 (frame_udp 49152 ip_dns1 9 255),
        PrintInbound LayerTypeUDP ''10.0.0.2:55557'' ''8.8.8.8:53'' 94]"
proof -
  have "snd (handleListen sc_env sc_server1 pkt_ttl0 listen1) =
       [Wrote 0 (frame_udp 49152 ip_dns1 9 255),
        PrintInbound LayerTypeUDP ''10.0.0.2:55557'' ''8.8.8.8:53'' 94]"
    by (subst handleListen_layers [of sc_env pkt_ttl0 "carrier 43 False (Some inner_ttl0)"
          inner_ttl0 "udp4 ip_client 55557 ip_dns1 53 9 0 body12" sc_server1
          "UDP \<lparr>udp_SrcPort = 49152, udp_DstPort = 53\<rparr>"
          "IPv4 \<lparr>ip4_SrcIP = ip_up4, ip4_DstIP = ip_dns1, ip4_Id = 9, ip4_TTL = 255\<rparr>"
          eth_up])
       (simp_all add: distribute_miss createNetworkLayer_def createLinkLayer_def eth_up_def
          frame_udp_def)
  then show ?thesis by simp
qed

text \<open>
  Claim C7. Port allocation is deterministic: starting from port cursor 0, processing N
  ingress data packets carrying N pairwise-distinct inner flow keys, in order, allocates
  server-side source ports 49152, 49153, and so on, the k-th distinct key receiving
  \<open>49152 + ((k - 1) mod 16384)\<close>.

  Starting from port cursor 0 and an empty forward table (the state after \<open>Open\<close>), let
  \<open>cs\<close> be a sequence of ingress data packets and \<open>packet\<close> the one at index \<open>i\<close>, counted
  from 0. After the \<open>i\<close> packets before it have been handled, \<open>handleListen\<close> gives
  \<open>packet\<close> the port \<open>49152 + (i mod 16384)\<close>, and every frame it writes for \<open>packet\<close>
  carries that source port. Since the forward table is never written, the packets need
  not belong to distinct flows.
\<close>

theorem port_allocation_sequence:
  assumes "port p = 0" and "portDist p = Map.empty"
    and "\<forall>c\<in>set cs. dataCapture env c"
    and "i < length cs" and "cs ! i = Listen packet handle"
  shows "map_option unat (allocated env (fst (handlePackets env p (take i cs))) packet)
           = Some (49152 + i mod 16384)
       \<and> (\<forall>h f. Wrote h f \<in>
                    set (snd (handleListen env (fst (handlePackets env p (take i cs))) packet handle))
              \<longrightarrow> map_option unat (frameSrcPort f) = Some (49152 + i mod 16384))"
proof -
  let ?p = "fst (handlePackets env p (take i cs))"
  have t: "\<forall>c\<in>set (take i cs). dataCapture env c"
    using assms(3) by (meson in_set_takeD)
  have st: "port ?p = of_nat i" "portDist ?p = Map.empty"
    using handlePackets_port [OF t assms(2)] assms(1,4) by simp_all
  have "dataCapture env (cs ! i)"
    using assms(3,4) by simp
  then have d: "dataPacket env packet"
    by (simp add: assms(5) dataCapture_def)
  have a: "allocated env ?p packet = Some (49152 + of_nat i mod 16384)"
    using handleListen_port_data(2) [OF d st(2)] by (simp add: st(1))
  have "map_option unat (frameSrcPort f) = Some (49152 + i mod 16384)"
    if "Wrote h f \<in> set (snd (handleListen env ?p packet handle))" for h f
    using handleListen_frames [OF d that] by (simp add: a unat_distPort)
  then show ?thesis
    by (simp add: a unat_distPort)
qed

text \<open>The theorem on scenarios 2 and 4: the first flow is given 49152, the second
  49153.\<close>

theorem port_allocation_sequence_witness:
  "map_option unat (allocated sc_env sc_server pkt_data1) = Some 49152
   \<and> map_option unat
        (allocated sc_env (fst (handlePackets sc_env sc_server [Listen pkt_data1 listen1]))
           pkt_data2) = Some 49153"
  using port_allocation_sequence [of sc_server "[Listen pkt_data1 listen1, Listen pkt_data2 listen1]"
      sc_env 0 pkt_data1 listen1]
    port_allocation_sequence [of sc_server "[Listen pkt_data1 listen1, Listen pkt_data2 listen1]"
      sc_env 1 pkt_data2 listen1]
  by (simp add: dataCapture_def dataPacket_def)

text \<open>
  Claim C8. For every upstream frame that parses and whose reverse key
  \<open>(dst_ip, dst_port, src_ip, src_port, protocol)\<close> is absent from the reverse NAT table,
  \<open>handleUpstream\<close> returns the server unchanged (so \<open>seqs\<close>, \<open>acks\<close>, \<open>portDist\<close>,
  \<open>nat\<close>, the IPv4 id counter and the port cursor are what they were) and does nothing
  to the outside world: no frame is written and no line is printed.
\<close>

theorem handleUpstream_nat_miss:
  assumes "parsePacket env packet = Inr indicator"
    and "nat' p (qUpstream env indicator) = None"
  shows "handleUpstream env p packet = (p, [])"
  using assms by (simp add: handleUpstream_def)

text \<open>The theorem on the scenario: the reverse table holds the entry of the first flow
  under another key, and the reply addressed to port 49152 is dropped.\<close>

theorem handleUpstream_nat_miss_witness:
  "nat' sc_server2 key1 = Some entry1
   \<and> handleUpstream sc_env sc_server2 pkt_reply = (sc_server2, [])"
  using handleUpstream_nat_miss [of sc_env pkt_reply
      "udp4 ip_dns1 53 ip_up4 49152 11 57 (replicate 30 0)" sc_server2]
  by (simp add: qUpstream_def key1_def)

text \<open>
  Claim C9. For every carrier segment that parses, is not a SYN and has an application
  payload, if parsing the payload as an inner IP packet fails with \<open>err\<close>, then
  \<open>handleListen\<close> prints the error and returns the server with \<open>acks[client]\<close> advanced
  by the payload length and nothing else changed: the advance made before the parse is
  not rolled back.
\<close>

theorem handleListen_ack_kept:
  assumes "parsePacket env packet = Inr indicator"
    and "\<not> SYN indicator"
    and "ApplicationLayer indicator = Some contents"
    and "parseEncappedPacket env contents = Inl err"
  shows "handleListen env p packet handle =
           (p\<lparr>acks := (acks p)(SrcAddr env indicator \<mapsto>
                 mapGet (acks p) (SrcAddr env indicator) + of_nat (length contents))\<rparr>,
            [Println (Wrap ''handle listen'' err)])"
  using assms by (simp add: handleListen_def Let_def)

text \<open>The theorem on the scenario: after the SYN the ack counter is 43; a segment whose
  3 bytes of payload do not parse leaves it at 46.\<close>

theorem handleListen_ack_kept_witness:
  "handleListen sc_env sc_server1 pkt_bad listen1 =
     (sc_server1\<lparr>acks := [''10.0.0.2:40000'' \<mapsto> 46]\<rparr>,
      [Println (Wrap ''handle listen'' (ErrorNew ''parse encapped packet''))])"
  using handleListen_ack_kept [of sc_env pkt_bad "carrier 43 False (Some inner_bad)" inner_bad
      "ErrorNew ''parse encapped packet''" sc_server1 listen1]
  by (simp add: mapGet_def)

text \<open>
  Claim C10. On every successfully parsed ingress data packet, not only on the first
  packet of a flow, the reverse NAT entry for that flow is (re)written, and the source-IP
  field of its key is always the string form of the upstream device's IPv4 address, even
  when the inner packet is IPv6 (in which case the rebuilt packet's source is the upstream
  IPv6 address, so the key and the emitted identity differ).

  For an ingress data packet whose transport, network and link layers are made without
  error, in any state of the tables: after \<open>handleListen\<close> the reverse table maps the key
  (string of the upstream IPv4 address, inner source port, inner destination, inner
  protocol) to the carrier endpoint, the inner source and the listen handle of this
  packet; for an inner IPv6 packet the network layer of the frame is the one the IPv6
  builder made with the upstream IPv6 address as source; and when serializing and writing
  succeed the frame with that network layer is written to the upstream handle.
\<close>

theorem handleListen_records_nat:
  assumes "parsePacket env packet = Inr indicator"
    and "\<not> SYN indicator"
    and "ApplicationLayer indicator = Some contents"
    and "parseEncappedPacket env contents = Inr ei"
    and "setSrcPort ''create transport layer'' (TransportLayer ei)
             (fst (distribute p (qPortDist env indicator ei))) = Inr t"
    and "createNetworkLayer env (NetworkLayerType ei) (IPv4Addr (UpDev p)) (IPv6Addr (UpDev p))
           (DstIP ei) (Id' ei) (TTL ei - 1) t = Inr nl"
    and "createLinkLayer env p (if IsLoop (UpDev p) then LayerTypeLoopback else LayerTypeEthernet) nl
           = Inr ll"
  shows "nat' (fst (handleListen env p packet handle))
           \<lparr>q_SrcIP = IPString env (IPv4Addr (UpDev p)), q_SrcPort = SrcPort ei,
            q_DstIP = IPString env (DstIP ei), q_DstPort = DstPort ei,
            q_Protocol = TransportLayerType ei\<rparr>
         = Some \<lparr>ps_SrcIP = IPString env (SrcIP indicator), ps_SrcPort = SrcPort indicator,
                 ps_EncappedSrcIP = IPString env (SrcIP ei), ps_EncappedSrcPort = SrcPort ei,
                 ps_Handle = handle\<rparr>
       \<and> (NetworkLayerType ei = LayerTypeIPv6 \<longrightarrow>
            createNetworkLayerIPv6 env (IPv6Addr (UpDev p)) (DstIP ei) t = Inr nl)
       \<and> (serialize env ll nl t (Payload ei) = None \<longrightarrow>
            WritePacketData env (upHandle p)
              \<lparr>f_link = ll, f_network = nl, f_transport = t, f_payload = Payload ei\<rparr> = None \<longrightarrow>
            snd (handleListen env p packet handle) =
              [Wrote (upHandle p)
                 \<lparr>f_link = ll, f_network = nl, f_transport = t, f_payload = Payload ei\<rparr>,
               PrintInbound (TransportLayerType ei) (SrcAddr env ei) (DstAddr env ei)
                 (pkt_Length packet)])"
proof -
  have "NetworkLayerType ei = LayerTypeIPv6 \<Longrightarrow>
          createNetworkLayerIPv6 env (IPv6Addr (UpDev p)) (DstIP ei) t = Inr nl"
    using assms(6) by (simp add: createNetworkLayer_def)
  then show ?thesis
    by (simp add: handleListen_layers [OF assms] qNAT_def)
qed

text \<open>The theorem on an inner IPv6 packet that is the second packet of its flow, arriving
  on another listen handle: the entry written by the first packet is overwritten, under
  the key with the IPv4 string 198.51.100.1, and the frame leaves with the source
  2001:db8::1.\<close>

theorem handleListen_records_nat_witness:
  "nat' (fst (handleListen sc_env sc_server pkt_data6 listen1))
     \<lparr>q_SrcIP = ''198.51.100.1'', q_SrcPort = 55558, q_DstIP = ''2001:4860:4860::8888'',
      q_DstPort = 53, q_Protocol = LayerTypeUDP\<rparr>
   = Some \<lparr>ps_SrcIP = ''10.0.0.2'', ps_SrcPort = 40000, ps_EncappedSrcIP = ''2001:db8::2'',
           ps_EncappedSrcPort = 55558, ps_Handle = listen1\<rparr>
   \<and> nat' (fst (handleListen sc_env (fst (handleListen sc_env sc_server pkt_data6 listen1))
                pkt_data6 listen2))
     \<lparr>q_SrcIP = ''198.51.100.1'', q_SrcPort = 55558, q_DstIP = ''2001:4860:4860::8888'',
      q_DstPort = 53, q_Protocol = LayerTypeUDP\<rparr>
   = Some \<lparr>ps_SrcIP = ''10.0.0.2'', ps_SrcPort = 40000, ps_EncappedSrcIP = ''2001:db8::2'',
           ps_EncappedSrcPort = 55558, ps_Handle = listen2\<rparr>
   \<and> snd (handleListen sc_env (fst (handleListen sc_env sc_server pkt_data6 listen1))
            pkt_data6 listen2) =
       [Wrote 0
         \<lparr>f_link = eth_up,
          f_network = IPv6 \<lparr>ip6_SrcIP = ip_up6, ip6_DstIP = ip_dns6, ip6_HopLimit = 64\<rparr>,
          f_transport = UDP \<lparr>udp_SrcPort = 49153, udp_DstPort = 53\<rparr>,
          f_payload = Some body12\<rparr>,
       PrintInbound LayerTypeUDP ''2001:db8::2:55558'' ''2001:4860:4860::8888:53'' 114]"
  using handleListen_records_nat [of sc_env pkt_data6 "carrier 43 False (Some inner6)" inner6
          "udp6 ip_client6 55558 ip_dns6 53 64 body12"
          "fst (handleListen sc_env sc_server pkt_data6 listen1)"
          "UDP \<lparr>udp_SrcPort = 49153, udp_DstPort = 53\<rparr>"
          "IPv6 \<lparr>ip6_SrcIP = ip_up6, ip6_DstIP = ip_dns6, ip6_HopLimit = 64\<rparr>"
          eth_up listen2]
  by (simp add: sc_data6_step distribute_miss createNetworkLayer_def createLinkLayer_def
        eth_up_def)

end
